theory Spec2Isabelle
  imports Main
begin

section \<open>Platform model: addresses, 64-bit arithmetic, failures\<close>

text \<open>
  The contracts run on the AVM.  Every \<open>uint64\<close> operation that leaves the range
  \<open>0 .. 2^64 - 1\<close> and every failed \<open>assert\<close> aborts the transaction.  Values are
  modelled as natural numbers, each arithmetic step returns either the value or the
  failure, and a method returns \<open>Inl e\<close> when the transaction is aborted.
\<close>

type_synonym address = nat

definition zeroAddress :: address where
  "zeroAddress = 0"

datatype error =
    Overflow
  | Underflow
  | DivByZero
  | IndexOutOfRange
  | BoxNotFound
  | AssertFailed
  | PayTxnMismatch
  | ExceedsMaxPerPool
  | PoolFull
  | BelowMinimum
  | InsufficientBalance
  | AccountNotFound
  | EpochTooEarly
  | RewardTooSmall
  | InvalidConfig

fun rbind :: "error + 'a \<Rightarrow> ('a \<Rightarrow> error + 'b) \<Rightarrow> error + 'b" where
  "rbind (Inl e) f = Inl e"
| "rbind (Inr x) f = f x"

definition assert :: "bool \<Rightarrow> error \<Rightarrow> error + unit" where
  "assert c e = (if c then Inr () else Inl e)"

definition u64_max :: nat where
  "u64_max = 2 ^ 64 - 1"

definition u64_add :: "nat \<Rightarrow> nat \<Rightarrow> error + nat" where
  "u64_add a b = (if a + b \<le> u64_max then Inr (a + b) else Inl Overflow)"

definition u64_sub :: "nat \<Rightarrow> nat \<Rightarrow> error + nat" where
  "u64_sub a b = (if b \<le> a then Inr (a - b) else Inl Underflow)"

definition u64_mul :: "nat \<Rightarrow> nat \<Rightarrow> error + nat" where
  "u64_mul a b = (if a * b \<le> u64_max then Inr (a * b) else Inl Overflow)"

definition u64_div :: "nat \<Rightarrow> nat \<Rightarrow> error + nat" where
  "u64_div a b = (if b = 0 then Inl DivByZero else Inr (a div b))"

text \<open>
  \<open>wideRatio\<close> is the compiler's library routine, not code of the repository: the
  product of the numerators divided by the product of the denominators, rounded
  down, with 128-bit intermediate products and a result that must fit 64 bits.
\<close>

definition wideRatio :: "nat list \<Rightarrow> nat list \<Rightarrow> error + nat" where
  "wideRatio nums dens =
     (if prod_list dens = 0 then Inl DivByZero
      else if 2 ^ 128 \<le> prod_list nums \<or> 2 ^ 128 \<le> prod_list dens then Inl Overflow
      else if prod_list nums div prod_list dens \<le> u64_max
           then Inr (prod_list nums div prod_list dens)
           else Inl Overflow)"

definition nth_checked :: "'a list \<Rightarrow> nat \<Rightarrow> error + 'a" where
  "nth_checked xs i = (if i < length xs then Inr (xs ! i) else Inl IndexOutOfRange)"

section \<open>StakingPool: state, environment, effects\<close>

record StakedInfo =
  Account :: address
  Balance :: nat
  TotalRewarded :: nat
  RewardTokenBalance :: nat
  EntryTime :: nat

text \<open>
  The pool's global state keys and its \<open>stakers\<close> box.  \<open>LastPayout\<close> is optional
  because the code asks whether the key exists.  The box is taken to exist (after
  \<open>initStorage\<close>); the number of its slots, \<open>MAX_STAKERS_PER_POOL\<close>, is the length of
  the list.
\<close>

record PoolState =
  CreatingValidatorContractAppID :: nat
  ValidatorID :: nat
  PoolID :: nat
  NumStakers :: nat
  TotalAlgoStaked :: nat
  MinEntryStake :: nat
  MaxStakeAllowed :: nat
  LastPayout :: "nat option"
  Stakers :: "StakedInfo list"

text \<open>
  What the pool reads of the validator's configuration and state through
  \<open>getValidatorConfig\<close> and \<open>getValidatorState\<close>.
\<close>

record ValidatorConfig =
  PayoutEveryXMins :: nat
  PercentToValidator :: nat
  ValidatorCommissionAddress :: address
  RewardTokenID :: nat
  RewardPerPayout :: nat

record ValidatorCurState =
  RewardTokenHeldBack :: nat
  vs_TotalAlgoStaked :: nat

text \<open>
  The ambient values of one call: the transaction, the block timestamp, the pool's own
  account, and the answers of the registry and of pool 1 to the inner calls the method
  makes.  \<open>MAX_VALIDATOR_PCT_OF_ONLINE\<close> is imported from a constants file that is not
  part of the sources, so it is a field of the environment.
\<close>

record Env =
  txnSender :: address
  latestTimestamp :: nat
  appID :: nat
  appAddress :: address
  appBalance :: nat
  appMinBalance :: nat
  creatorAddress :: address
  validatorConfig :: ValidatorConfig
  validatorState :: ValidatorCurState
  PoolPctOfWhole :: "nat list"
  poolOneAssetBalance :: nat
  FeeSinkAddr :: address
  MAX_VALIDATOR_PCT_OF_ONLINE :: nat

record PayTxn =
  pay_sender :: address
  pay_receiver :: address
  pay_amount :: nat

text \<open>
  \<open>ValidatorPoolKey\<close> of the registry.  Its fields \<open>ID\<close>, \<open>PoolID\<close> and \<open>PoolAppID\<close>
  carry the prefix \<open>key_\<close>, because other structures have fields of the same names.
\<close>

record ValidatorPoolKey =
  key_ID :: nat
  key_PoolID :: nat
  key_PoolAppID :: nat

text \<open>
  The trace of a method, in the order of its statements: the payments it sends (receiver,
  amount, note), the asset transfers (asset, receiver, amount) and the calls of the
  registry's \<open>stakeRemoved\<close> and \<open>stakeUpdatedViaRewards\<close> with their arguments, and, for
  \<open>epochBalanceUpdate\<close>, the write of the global key \<open>LastPayout\<close>
  (\<open>this.LastPayout.value = curTime\<close>), so that the place of this write among the payments
  can be read off the list.  The calls that ask the registry or pool 1 for data are
  answered by the environment and are not recorded.
\<close>

datatype effect =
    Payment address nat string
  | AssetTransfer nat address nat
  | StakeRemovedCall ValidatorPoolKey address nat nat bool
  | StakeUpdatedViaRewardsCall ValidatorPoolKey nat nat
  | LastPayoutWrite nat

definition ALGORAND_STAKING_BLOCK_DELAY :: nat where
  "ALGORAND_STAKING_BLOCK_DELAY = 320"

definition AVG_BLOCK_TIME_SECS :: nat where
  "AVG_BLOCK_TIME_SECS = 28"

definition getEntryTime :: "Env \<Rightarrow> error + nat" where
  "getEntryTime env =
     u64_add (latestTimestamp env) ((ALGORAND_STAKING_BLOCK_DELAY * AVG_BLOCK_TIME_SECS) div 10)"

section \<open>StakingPool.addStake\<close>

text \<open>
  The scan of \<open>addStake\<close>: it stops with \<open>Matched i\<close> at the first slot that holds the
  staker, and it leaves the loop (\<open>break\<close>) with \<open>firstEmpty = i + 1\<close> at the first
  empty slot; \<open>Scanned 0\<close> is the loop running to the end with \<open>firstEmpty\<close> still 0.
\<close>

datatype scan = Matched nat | Scanned nat

fun addStakeScan :: "address \<Rightarrow> StakedInfo list \<Rightarrow> nat \<Rightarrow> scan" where
  "addStakeScan staker [] i = Scanned 0"
| "addStakeScan staker (cmpStaker # rest) i =
     (if Account cmpStaker = staker then Matched i
      else if Account cmpStaker = zeroAddress then Scanned (i + 1)
      else addStakeScan staker rest (i + 1))"

definition addStake :: "Env \<Rightarrow> PoolState \<Rightarrow> PayTxn \<Rightarrow> address \<Rightarrow> error + (PoolState \<times> nat)" where
  "addStake env s stakedAmountPayment staker =
     rbind (assert (txnSender env = creatorAddress env) AssertFailed) (\<lambda>_.
     rbind (assert (staker \<noteq> zeroAddress) AssertFailed) (\<lambda>_.
     rbind (assert (pay_sender stakedAmountPayment = creatorAddress env
                    \<and> pay_receiver stakedAmountPayment = appAddress env) PayTxnMismatch) (\<lambda>_.
     rbind (u64_add (pay_amount stakedAmountPayment) (TotalAlgoStaked s)) (\<lambda>newTotal.
     rbind (assert (newTotal \<le> MaxStakeAllowed s) ExceedsMaxPerPool) (\<lambda>_.
     rbind (getEntryTime env) (\<lambda>entryTime.
      (case addStakeScan staker (Stakers s) 0 of
         Matched i \<Rightarrow>
           rbind (u64_add (Balance (Stakers s ! i)) (pay_amount stakedAmountPayment)) (\<lambda>newBalance.
           rbind (u64_add (TotalAlgoStaked s) (pay_amount stakedAmountPayment)) (\<lambda>total.
             Inr (s\<lparr>Stakers := (Stakers s)[i := (Stakers s ! i)\<lparr>Balance := newBalance,
                                                                  EntryTime := entryTime\<rparr>],
                    TotalAlgoStaked := total\<rparr>, entryTime)))
       | Scanned firstEmpty \<Rightarrow>
           if firstEmpty = 0 then Inl PoolFull
           else
             rbind (assert (MinEntryStake s \<le> pay_amount stakedAmountPayment) BelowMinimum) (\<lambda>_.
             rbind (assert (Account (Stakers s ! (firstEmpty - 1)) = zeroAddress) AssertFailed) (\<lambda>_.
             rbind (u64_add (NumStakers s) 1) (\<lambda>numStakers.
             rbind (u64_add (TotalAlgoStaked s) (pay_amount stakedAmountPayment)) (\<lambda>total.
               Inr (s\<lparr>Stakers := (Stakers s)[firstEmpty - 1 :=
                                     \<lparr>Account = staker,
                                      Balance = pay_amount stakedAmountPayment,
                                      TotalRewarded = 0,
                                      RewardTokenBalance = 0,
                                      EntryTime = entryTime\<rparr>],
                      NumStakers := numStakers,
                      TotalAlgoStaked := total\<rparr>, entryTime))))))))))))"

section \<open>StakingPool.removeStake and claimTokens\<close>

text \<open>
  Both methods walk the ledger for the first slot whose account is the caller and act on
  that slot; the loop running to the end is the \<open>Account not found\<close> failure.
\<close>

fun findStaker :: "address \<Rightarrow> StakedInfo list \<Rightarrow> nat \<Rightarrow> nat option" where
  "findStaker staker [] i = None"
| "findStaker staker (cmpStaker # rest) i =
     (if Account cmpStaker = staker then Some i else findStaker staker rest (i + 1))"

definition poolKey :: "Env \<Rightarrow> PoolState \<Rightarrow> ValidatorPoolKey" where
  "poolKey env s = \<lparr>key_ID = ValidatorID s, key_PoolID = PoolID s, key_PoolAppID = appID env\<rparr>"

definition removeStake :: "Env \<Rightarrow> PoolState \<Rightarrow> nat \<Rightarrow> error + (PoolState \<times> effect list)" where
  "removeStake env s amountToUnstake0 =
     (let staker = txnSender env in
      (case findStaker staker (Stakers s) 0 of
        None \<Rightarrow> Inl AccountNotFound
      | Some i \<Rightarrow>
          (let cmpStaker = Stakers s ! i;
               amountToUnstake = (if amountToUnstake0 = 0 then Balance cmpStaker else amountToUnstake0)
           in
           if Balance cmpStaker < amountToUnstake then Inl InsufficientBalance
           else
             rbind (u64_sub (Balance cmpStaker) amountToUnstake) (\<lambda>newBalance.
             rbind (u64_sub (TotalAlgoStaked s) amountToUnstake) (\<lambda>total.
               (let amountRewardTokenRemoved =
                      (if 0 < RewardTokenBalance cmpStaker then RewardTokenBalance cmpStaker else 0);
                    tokenEffects =
                      (if 0 < RewardTokenBalance cmpStaker \<and> PoolID s = 1
                       then [AssetTransfer (RewardTokenID (validatorConfig env)) staker
                               (RewardTokenBalance cmpStaker)]
                       else []);
                    cmpStaker1 = cmpStaker\<lparr>Balance := newBalance,
                      RewardTokenBalance :=
                        (if 0 < RewardTokenBalance cmpStaker then 0 else RewardTokenBalance cmpStaker)\<rparr>
                in
                rbind (assert (Balance cmpStaker1 = 0 \<or> MinEntryStake s \<le> Balance cmpStaker1)
                         BelowMinimum) (\<lambda>_.
                  (let payment = [Payment staker amountToUnstake ''unstaked''] in
                   if Balance cmpStaker1 = 0 then
                     rbind (u64_sub (NumStakers s) 1) (\<lambda>numStakers.
                       Inr (s\<lparr>Stakers := (Stakers s)[i := cmpStaker1\<lparr>Account := zeroAddress,
                                                                      TotalRewarded := 0,
                                                                      RewardTokenBalance := 0\<rparr>],
                              NumStakers := numStakers,
                              TotalAlgoStaked := total\<rparr>,
                            tokenEffects @ payment @
                            [StakeRemovedCall (poolKey env s) staker amountToUnstake
                               amountRewardTokenRemoved True]))
                   else
                     Inr (s\<lparr>Stakers := (Stakers s)[i := cmpStaker1],
                            TotalAlgoStaked := total\<rparr>,
                          tokenEffects @ payment @
                          [StakeRemovedCall (poolKey env s) staker amountToUnstake
                             amountRewardTokenRemoved False])))))))))"

definition claimTokens :: "Env \<Rightarrow> PoolState \<Rightarrow> error + (PoolState \<times> effect list)" where
  "claimTokens env s =
     (let staker = txnSender env in
      (case findStaker staker (Stakers s) 0 of
        None \<Rightarrow> Inl AccountNotFound
      | Some i \<Rightarrow>
          (let cmpStaker = Stakers s ! i in
           if RewardTokenBalance cmpStaker = 0 then Inr (s, [])
           else
             (let amountRewardTokenRemoved = RewardTokenBalance cmpStaker;
                  tokenEffects =
                    (if PoolID s = 1
                     then [AssetTransfer (RewardTokenID (validatorConfig env)) staker
                             (RewardTokenBalance cmpStaker)]
                     else [])
              in Inr (s\<lparr>Stakers := (Stakers s)[i := cmpStaker\<lparr>RewardTokenBalance := 0\<rparr>]\<rparr>,
                      tokenEffects @
                      [StakeRemovedCall (poolKey env s) staker 0 amountRewardTokenRemoved False])))))"

section \<open>StakingPool.epochBalanceUpdate\<close>

text \<open>
  The running totals of the payout: the local variables \<open>algoRewardAvail\<close>,
  \<open>tokenRewardAvail\<close>, \<open>tokenRewardPaidOut\<close>, \<open>increasedStake\<close> and
  \<open>partialStakersTotalStake\<close> of the method.
\<close>

record PayoutAcc =
  algoRewardAvail :: nat
  tokenRewardAvail :: nat
  tokenRewardPaidOut :: nat
  increasedStake :: nat
  partialStakersTotalStake :: nat

text \<open>
  Both passes over the ledger have the shape
  \<open>for i: cmpStaker = clone(Stakers[i]); body; Stakers[i] = cmpStaker\<close>; the body
  reads and writes slot \<open>i\<close> only, so the loop is a recursion over the slots that
  threads the running totals.
\<close>

fun ledgerLoop ::
  "(StakedInfo \<Rightarrow> PayoutAcc \<Rightarrow> error + (StakedInfo \<times> PayoutAcc)) \<Rightarrow>
   StakedInfo list \<Rightarrow> PayoutAcc \<Rightarrow> error + (StakedInfo list \<times> PayoutAcc)" where
  "ledgerLoop body [] acc = Inr ([], acc)"
| "ledgerLoop body (cmpStaker # rest) acc =
     rbind (body cmpStaker acc) (\<lambda>(c, acc1).
     rbind (ledgerLoop body rest acc1) (\<lambda>(rest1, acc2).
       Inr (c # rest1, acc2)))"

text \<open>First loop, token part of the branch \<open>timeInPool < epochInSecs\<close>.\<close>

definition partialTokenCredit ::
  "nat \<Rightarrow> nat \<Rightarrow> StakedInfo \<Rightarrow> PayoutAcc \<Rightarrow> error + (StakedInfo \<times> PayoutAcc)" where
  "partialTokenCredit totalStaked timePercentage cmpStaker acc =
     (if 0 < tokenRewardAvail acc then
        rbind (wideRatio [Balance cmpStaker, tokenRewardAvail acc, timePercentage]
                         [totalStaked, 1000]) (\<lambda>stakerTokenReward.
        rbind (u64_sub (tokenRewardAvail acc) stakerTokenReward) (\<lambda>avail.
        rbind (u64_add (RewardTokenBalance cmpStaker) stakerTokenReward) (\<lambda>tokenBalance.
        rbind (u64_add (tokenRewardPaidOut acc) stakerTokenReward) (\<lambda>paidOut.
          Inr (cmpStaker\<lparr>RewardTokenBalance := tokenBalance\<rparr>,
               acc\<lparr>tokenRewardAvail := avail, tokenRewardPaidOut := paidOut\<rparr>)))))
      else Inr (cmpStaker, acc))"

text \<open>First loop, algo part of the branch \<open>timeInPool < epochInSecs\<close>.\<close>

definition partialAlgoCredit ::
  "nat \<Rightarrow> nat \<Rightarrow> StakedInfo \<Rightarrow> PayoutAcc \<Rightarrow> error + (StakedInfo \<times> PayoutAcc)" where
  "partialAlgoCredit totalStaked timePercentage cmpStaker acc =
     (if 0 < algoRewardAvail acc then
        rbind (wideRatio [Balance cmpStaker, algoRewardAvail acc, timePercentage]
                         [totalStaked, 1000]) (\<lambda>stakerReward.
        rbind (u64_sub (algoRewardAvail acc) stakerReward) (\<lambda>avail.
        rbind (u64_add (Balance cmpStaker) stakerReward) (\<lambda>balance.
        rbind (u64_add (TotalRewarded cmpStaker) stakerReward) (\<lambda>rewarded.
        rbind (u64_add (increasedStake acc) stakerReward) (\<lambda>increased.
          Inr (cmpStaker\<lparr>Balance := balance, TotalRewarded := rewarded\<rparr>,
               acc\<lparr>algoRewardAvail := avail, increasedStake := increased\<rparr>))))))
      else Inr (cmpStaker, acc))"

text \<open>Body of the first loop (the stakers that were not in the pool for the whole epoch).\<close>

definition payPartialStaker ::
  "nat \<Rightarrow> nat \<Rightarrow> nat \<Rightarrow> StakedInfo \<Rightarrow> PayoutAcc \<Rightarrow> error + (StakedInfo \<times> PayoutAcc)" where
  "payPartialStaker curTime epochInSecs totalStaked cmpStaker acc =
     (if Account cmpStaker \<noteq> zeroAddress then
        (if curTime < EntryTime cmpStaker then
           rbind (u64_add (partialStakersTotalStake acc) (Balance cmpStaker)) (\<lambda>partialTotal.
             Inr (cmpStaker, acc\<lparr>partialStakersTotalStake := partialTotal\<rparr>))
         else
           rbind (u64_sub curTime (EntryTime cmpStaker)) (\<lambda>timeInPool.
             if timeInPool < epochInSecs then
               rbind (u64_add (partialStakersTotalStake acc) (Balance cmpStaker)) (\<lambda>partialTotal.
               rbind (u64_mul timeInPool 1000) (\<lambda>scaled.
               rbind (u64_div scaled epochInSecs) (\<lambda>timePercentage.
               rbind (partialTokenCredit totalStaked timePercentage cmpStaker
                        (acc\<lparr>partialStakersTotalStake := partialTotal\<rparr>)) (\<lambda>(c1, acc1).
                 partialAlgoCredit totalStaked timePercentage c1 acc1))))
             else Inr (cmpStaker, acc)))
      else Inr (cmpStaker, acc))"

text \<open>Second loop, token and algo parts of the branch \<open>timeInPool >= epochInSecs\<close>.\<close>

definition fullTokenCredit ::
  "nat \<Rightarrow> StakedInfo \<Rightarrow> PayoutAcc \<Rightarrow> error + (StakedInfo \<times> PayoutAcc)" where
  "fullTokenCredit newPoolTotalStake cmpStaker acc =
     (if 0 < tokenRewardAvail acc then
        rbind (wideRatio [Balance cmpStaker, tokenRewardAvail acc] [newPoolTotalStake])
          (\<lambda>stakerTokenReward.
        rbind (u64_add (RewardTokenBalance cmpStaker) stakerTokenReward) (\<lambda>tokenBalance.
        rbind (u64_add (tokenRewardPaidOut acc) stakerTokenReward) (\<lambda>paidOut.
          Inr (cmpStaker\<lparr>RewardTokenBalance := tokenBalance\<rparr>,
               acc\<lparr>tokenRewardPaidOut := paidOut\<rparr>))))
      else Inr (cmpStaker, acc))"

definition fullAlgoCredit ::
  "nat \<Rightarrow> StakedInfo \<Rightarrow> PayoutAcc \<Rightarrow> error + (StakedInfo \<times> PayoutAcc)" where
  "fullAlgoCredit newPoolTotalStake cmpStaker acc =
     (if 0 < algoRewardAvail acc then
        rbind (wideRatio [Balance cmpStaker, algoRewardAvail acc] [newPoolTotalStake])
          (\<lambda>stakerReward.
        rbind (u64_add (Balance cmpStaker) stakerReward) (\<lambda>balance.
        rbind (u64_add (TotalRewarded cmpStaker) stakerReward) (\<lambda>rewarded.
        rbind (u64_add (increasedStake acc) stakerReward) (\<lambda>increased.
          Inr (cmpStaker\<lparr>Balance := balance, TotalRewarded := rewarded\<rparr>,
               acc\<lparr>increasedStake := increased\<rparr>)))))
      else Inr (cmpStaker, acc))"

text \<open>Body of the second loop (the stakers that were in the pool for the whole epoch).\<close>

definition payFullStaker ::
  "nat \<Rightarrow> nat \<Rightarrow> nat \<Rightarrow> StakedInfo \<Rightarrow> PayoutAcc \<Rightarrow> error + (StakedInfo \<times> PayoutAcc)" where
  "payFullStaker curTime epochInSecs newPoolTotalStake cmpStaker acc =
     (if Account cmpStaker \<noteq> zeroAddress \<and> EntryTime cmpStaker < curTime then
        rbind (u64_sub curTime (EntryTime cmpStaker)) (\<lambda>timeInPool.
          if epochInSecs \<le> timeInPool then
            rbind (fullTokenCredit newPoolTotalStake cmpStaker acc) (\<lambda>(c1, acc1).
              fullAlgoCredit newPoolTotalStake c1 acc1)
          else Inr (cmpStaker, acc))
      else Inr (cmpStaker, acc))"

text \<open>
  The two passes over the ledger, with the reduction of the pool total between them: the
  second loop runs only when the reduced total is positive.
\<close>

definition payStakers ::
  "nat \<Rightarrow> nat \<Rightarrow> nat \<Rightarrow> StakedInfo list \<Rightarrow> PayoutAcc \<Rightarrow> error + (StakedInfo list \<times> PayoutAcc)" where
  "payStakers curTime epochInSecs totalStaked ledger acc =
     rbind (ledgerLoop (payPartialStaker curTime epochInSecs totalStaked) ledger acc)
       (\<lambda>(ledger1, acc1).
     rbind (u64_sub totalStaked (partialStakersTotalStake acc1)) (\<lambda>newPoolTotalStake.
       if 0 < newPoolTotalStake
       then ledgerLoop (payFullStaker curTime epochInSecs newPoolTotalStake) ledger1 acc1
       else Inr (ledger1, acc1)))"

definition getCurrentOnlineStake :: nat where
  "getCurrentOnlineStake = 2000000000000000"

definition maxAllowedStake :: "Env \<Rightarrow> error + nat" where
  "maxAllowedStake env = wideRatio [getCurrentOnlineStake, MAX_VALIDATOR_PCT_OF_ONLINE env] [1000]"

text \<open>
  The epoch gate: the check against \<open>LastPayout\<close> and its update, which opens the trace
  of the method.
\<close>

definition epochGate :: "Env \<Rightarrow> PoolState \<Rightarrow> nat \<Rightarrow> error + (PoolState \<times> effect list)" where
  "epochGate env s epochInSecs =
     rbind (case LastPayout s of
              None \<Rightarrow> Inr ()
            | Some lastPayout \<Rightarrow>
                rbind (u64_sub (latestTimestamp env) lastPayout) (\<lambda>secsSinceLastPayout.
                  assert (epochInSecs \<le> secsSinceLastPayout) EpochTooEarly)) (\<lambda>_.
       Inr (s\<lparr>LastPayout := Some (latestTimestamp env)\<rparr>,
            [LastPayoutWrite (latestTimestamp env)]))"

text \<open>The token reward this pool has to hand out (\<open>tokenRewardAvail\<close> before the passes).\<close>

definition tokenRewardForPool :: "Env \<Rightarrow> PoolState \<Rightarrow> error + nat" where
  "tokenRewardForPool env s =
     (if RewardTokenID (validatorConfig env) \<noteq> 0 then
        rbind (u64_sub (poolOneAssetBalance env) (RewardTokenHeldBack (validatorState env)))
          (\<lambda>tokenRewardBal.
          if RewardPerPayout (validatorConfig env) \<le> tokenRewardBal then
            rbind (u64_sub (PoolID s) 1) (\<lambda>idx.
            rbind (nth_checked (PoolPctOfWhole env) idx) (\<lambda>ourPoolPctOfWhole.
              wideRatio [RewardPerPayout (validatorConfig env), ourPoolPctOfWhole] [1000000]))
          else Inr 0)
      else Inr 0)"

text \<open>
  The payment to the fee sink or to the validator; the result is the reward left for
  the stakers and the payment sent.
\<close>

definition payValidator :: "Env \<Rightarrow> bool \<Rightarrow> nat \<Rightarrow> error + (nat \<times> effect list)" where
  "payValidator env sendRewardToFeeSink algoReward =
     (if sendRewardToFeeSink then
        Inr (0, [Payment (FeeSinkAddr env) algoReward
                   ''validator exceeded protocol max, rewards sent back to fee sink''])
      else if PercentToValidator (validatorConfig env) \<noteq> 0 then
        rbind (wideRatio [algoReward, PercentToValidator (validatorConfig env)] [1000000])
          (\<lambda>validatorPay.
        rbind (u64_sub algoReward validatorPay) (\<lambda>remaining.
          Inr (remaining,
               if 0 < validatorPay
               then [Payment (ValidatorCommissionAddress (validatorConfig env)) validatorPay
                       ''validator reward'']
               else [])))
      else Inr (algoReward, []))"

definition epochBalanceUpdate :: "Env \<Rightarrow> PoolState \<Rightarrow> error + (PoolState \<times> effect list)" where
  "epochBalanceUpdate env s =
     rbind (u64_mul (PayoutEveryXMins (validatorConfig env)) 60) (\<lambda>epochInSecs.
     rbind (epochGate env s epochInSecs) (\<lambda>(s1, written).
     rbind (u64_sub (appBalance env) (TotalAlgoStaked s1)) (\<lambda>aboveStake.
     rbind (u64_sub aboveStake (appMinBalance env)) (\<lambda>algoReward.
     rbind (maxAllowedStake env) (\<lambda>maxStake.
     rbind (tokenRewardForPool env s1) (\<lambda>tokenReward.
     rbind (assert (tokenReward = 0 \<longrightarrow> 1000000 < algoReward) RewardTooSmall) (\<lambda>_.
     rbind (payValidator env (maxStake < vs_TotalAlgoStaked (validatorState env)) algoReward)
       (\<lambda>(algoLeft, payments).
       if algoLeft = 0 \<and> tokenReward = 0 then Inr (s1, written @ payments)
       else
         rbind (payStakers (latestTimestamp env) epochInSecs (TotalAlgoStaked s1) (Stakers s1)
                  \<lparr>algoRewardAvail = algoLeft, tokenRewardAvail = tokenReward,
                   tokenRewardPaidOut = 0, increasedStake = 0,
                   partialStakersTotalStake = 0\<rparr>) (\<lambda>(ledger, acc).
         rbind (u64_add (TotalAlgoStaked s1) (increasedStake acc)) (\<lambda>total.
           Inr (s1\<lparr>Stakers := ledger, TotalAlgoStaked := total\<rparr>,
                written @ payments @
                [StakeUpdatedViaRewardsCall (poolKey env s1) (increasedStake acc)
                   (tokenRewardPaidOut acc)])))))))))))"

section \<open>ValidatorRegistry\<close>

text \<open>
  The registry's structures.  Where a field name of the source is already the name of a
  field above, it carries a prefix: \<open>reg_\<close> for the registry's own \<open>ValidatorConfig\<close> and
  \<open>ValidatorCurState\<close>, \<open>pool_\<close> for \<open>PoolInfo\<close>, \<open>node_\<close> for \<open>NodeInfo\<close>.
\<close>

record RegistryConfig =
  PayoutEveryXDays :: nat
  reg_PercentToValidator :: nat
  reg_ValidatorCommissionAddress :: address
  MinAllowedStake :: nat
  MaxAlgoPerPool :: nat
  PoolsPerNode :: nat
  MaxNodes :: nat

record RegistryCurState =
  NumPools :: nat
  TotalStakers :: nat
  reg_TotalAlgoStaked :: nat

record PoolInfo =
  NodeID :: nat
  PoolAppID :: nat
  pool_TotalStakers :: nat
  pool_TotalAlgoStaked :: nat

record NodeInfo =
  node_ID :: nat
  Name :: string

record ValidatorInfo =
  ID :: nat
  Owner :: address
  Manager :: address
  NFDForInfo :: nat
  Config :: RegistryConfig
  State :: RegistryCurState
  Nodes :: "NodeInfo list"
  Pools :: "PoolInfo list"

record RegistryState =
  numValidators :: nat
  ValidatorList :: "nat \<rightharpoonup> ValidatorInfo"
  StakerPoolSet :: "address \<rightharpoonup> ValidatorPoolKey list"

definition MAX_NODES :: nat where
  "MAX_NODES = 12"

definition MAX_POOLS_PER_NODE :: nat where
  "MAX_POOLS_PER_NODE = 4"

definition MAX_POOLS :: nat where
  "MAX_POOLS = MAX_NODES * MAX_POOLS_PER_NODE"

definition MIN_PAYOUT_DAYS :: nat where
  "MIN_PAYOUT_DAYS = 1"

definition MAX_PAYOUT_DAYS :: nat where
  "MAX_PAYOUT_DAYS = 30"

definition MIN_PCT_TO_VALIDATOR :: nat where
  "MIN_PCT_TO_VALIDATOR = 10000"

definition MAX_PCT_TO_VALIDATOR :: nat where
  "MAX_PCT_TO_VALIDATOR = 100000"

text \<open>
  \<open>MIN_ALGO_STAKE_PER_POOL\<close> and \<open>MAX_ALGO_PER_POOL\<close> are imported from a constants file
  that is not part of the sources; they are parameters of the model.
\<close>

record Constants =
  MIN_ALGO_STAKE_PER_POOL :: nat
  MAX_ALGO_PER_POOL :: nat

definition validateConfig :: "Constants \<Rightarrow> RegistryConfig \<Rightarrow> error + unit" where
  "validateConfig k config =
     rbind (assert (MIN_PAYOUT_DAYS \<le> PayoutEveryXDays config
                    \<and> PayoutEveryXDays config \<le> MAX_PAYOUT_DAYS) InvalidConfig) (\<lambda>_.
     rbind (assert (MIN_PCT_TO_VALIDATOR \<le> reg_PercentToValidator config
                    \<and> reg_PercentToValidator config \<le> MAX_PCT_TO_VALIDATOR) InvalidConfig) (\<lambda>_.
     rbind (assert (reg_ValidatorCommissionAddress config \<noteq> zeroAddress) InvalidConfig) (\<lambda>_.
     rbind (assert (MIN_ALGO_STAKE_PER_POOL k \<le> MinAllowedStake config) InvalidConfig) (\<lambda>_.
     rbind (assert (MaxAlgoPerPool config \<le> MAX_ALGO_PER_POOL k) InvalidConfig) (\<lambda>_.
     rbind (assert (0 < PoolsPerNode config \<and> PoolsPerNode config \<le> MAX_POOLS_PER_NODE)
              InvalidConfig) (\<lambda>_.
       assert (0 < MaxNodes config \<and> MaxNodes config \<le> MAX_NODES) InvalidConfig))))))"

text \<open>A freshly created box is filled with zero bytes.\<close>

definition emptyPoolInfo :: PoolInfo where
  "emptyPoolInfo = \<lparr>NodeID = 0, PoolAppID = 0, pool_TotalStakers = 0, pool_TotalAlgoStaked = 0\<rparr>"

definition emptyNodeInfo :: NodeInfo where
  "emptyNodeInfo = \<lparr>node_ID = 0, Name = []\<rparr>"

definition addValidator ::
  "Constants \<Rightarrow> RegistryState \<Rightarrow> address \<Rightarrow> address \<Rightarrow> nat \<Rightarrow> RegistryConfig \<Rightarrow>
   error + (RegistryState \<times> nat)" where
  "addValidator k r owner manager nfdAppID config =
     rbind (assert (owner \<noteq> zeroAddress) AssertFailed) (\<lambda>_.
     rbind (assert (manager \<noteq> zeroAddress) AssertFailed) (\<lambda>_.
     rbind (validateConfig k config) (\<lambda>_.
     rbind (u64_add (numValidators r) 1) (\<lambda>validatorID.
       Inr (r\<lparr>numValidators := validatorID,
               ValidatorList := (ValidatorList r)(validatorID \<mapsto>
                 \<lparr>ID = validatorID, Owner = owner, Manager = manager, NFDForInfo = nfdAppID,
                  Config = config,
                  State = \<lparr>NumPools = 0, TotalStakers = 0, reg_TotalAlgoStaked = 0\<rparr>,
                  Nodes = (replicate MAX_NODES emptyNodeInfo)[0 := emptyNodeInfo\<lparr>Name := ''foo''\<rparr>],
                  Pools = replicate MAX_POOLS emptyPoolInfo\<rparr>)\<rparr>,
            validatorID)))))"

text \<open>
  First loop of \<open>findPoolForStaker\<close>: the staker's pool set, in order.  \<open>Inr None\<close> is the
  loop running to its end.
\<close>

fun walkPoolSet ::
  "nat \<Rightarrow> PoolInfo list \<Rightarrow> nat \<Rightarrow> nat \<Rightarrow> ValidatorPoolKey list \<Rightarrow> error + ValidatorPoolKey option" where
  "walkPoolSet validatorID pools amountToStake maxPerPool [] = Inr None"
| "walkPoolSet validatorID pools amountToStake maxPerPool (key # rest) =
     (if key_ID key = validatorID then
        rbind (u64_sub (key_PoolID key) 1) (\<lambda>idx.
        rbind (nth_checked pools idx) (\<lambda>pool.
        rbind (u64_add (pool_TotalAlgoStaked pool) amountToStake) (\<lambda>total.
          if total < maxPerPool then Inr (Some key)
          else walkPoolSet validatorID pools amountToStake maxPerPool rest)))
      else walkPoolSet validatorID pools amountToStake maxPerPool rest)"

text \<open>
  Second loop: every entry of the validator's \<open>Pools\<close> array, in order; the loop running
  to its end is the key with \<open>PoolID = 0\<close>.
\<close>

fun walkPools :: "nat \<Rightarrow> nat \<Rightarrow> nat \<Rightarrow> PoolInfo list \<Rightarrow> nat \<Rightarrow> error + ValidatorPoolKey" where
  "walkPools validatorID amountToStake maxPerPool [] i =
     Inr \<lparr>key_ID = validatorID, key_PoolID = 0, key_PoolAppID = 0\<rparr>"
| "walkPools validatorID amountToStake maxPerPool (pool # rest) i =
     rbind (u64_add (pool_TotalAlgoStaked pool) amountToStake) (\<lambda>total.
       if total < maxPerPool
       then Inr \<lparr>key_ID = validatorID, key_PoolID = i + 1, key_PoolAppID = PoolAppID pool\<rparr>
       else walkPools validatorID amountToStake maxPerPool rest (i + 1))"

definition findPoolForStaker ::
  "RegistryState \<Rightarrow> nat \<Rightarrow> address \<Rightarrow> nat \<Rightarrow> error + ValidatorPoolKey" where
  "findPoolForStaker r validatorID staker amountToStake =
     (case ValidatorList r validatorID of
        None \<Rightarrow> Inl BoxNotFound
      | Some info \<Rightarrow>
          (let maxPerPool = MaxAlgoPerPool (Config info) in
           rbind (case StakerPoolSet r staker of
                    None \<Rightarrow> Inr None
                  | Some poolSet \<Rightarrow>
                      walkPoolSet validatorID (Pools info) amountToStake maxPerPool poolSet)
             (\<lambda>found.
               case found of
                 Some key \<Rightarrow> Inr key
               | None \<Rightarrow>
                   rbind (assert (MinAllowedStake (Config info) \<le> amountToStake) BelowMinimum) (\<lambda>_.
                     walkPools validatorID amountToStake maxPerPool (Pools info) 0))))"

section \<open>Predicates of the specification\<close>


text \<open>
  The bounds on a validator configuration, with the upper bound of the commission as a
  parameter: the specification names \<open>1_000_000\<close>, the registry's constant is \<open>100000\<close>.
\<close>

definition withinBounds :: "nat \<Rightarrow> Constants \<Rightarrow> RegistryConfig \<Rightarrow> bool" where
  "withinBounds maxPct k config \<longleftrightarrow>
     1 \<le> PayoutEveryXDays config \<and> PayoutEveryXDays config \<le> 30
     \<and> 10000 \<le> reg_PercentToValidator config \<and> reg_PercentToValidator config \<le> maxPct
     \<and> reg_ValidatorCommissionAddress config \<noteq> zeroAddress
     \<and> MIN_ALGO_STAKE_PER_POOL k \<le> MinAllowedStake config
     \<and> MaxAlgoPerPool config \<le> MAX_ALGO_PER_POOL k
     \<and> 1 \<le> PoolsPerNode config \<and> PoolsPerNode config \<le> 4
     \<and> 1 \<le> MaxNodes config \<and> MaxNodes config \<le> 12"

section \<open>The two-pass allocation in the words of the specification\<close>

text \<open>
  How a ledger slot takes part in the epoch that ends at \<open>now\<close>.  \<open>partialEpoch\<close> is a
  non-empty slot with \<open>timeInPool = now - entryTime < epochSecs\<close>; \<open>fullEpoch\<close> is a
  non-empty slot with \<open>timeInPool >= epochSecs\<close>; \<open>countsAsPartial\<close> adds to the partial
  slots those whose entry time lies after \<open>now\<close>.  The subtraction \<open>now - entryTime\<close> is
  only taken when \<open>entryTime <= now\<close>.
\<close>

definition partialEpoch :: "nat \<Rightarrow> nat \<Rightarrow> StakedInfo \<Rightarrow> bool" where
  "partialEpoch now epochSecs s \<longleftrightarrow>
     Account s \<noteq> zeroAddress \<and> EntryTime s \<le> now \<and> now - EntryTime s < epochSecs"

definition fullEpoch :: "nat \<Rightarrow> nat \<Rightarrow> StakedInfo \<Rightarrow> bool" where
  "fullEpoch now epochSecs s \<longleftrightarrow>
     Account s \<noteq> zeroAddress \<and> EntryTime s \<le> now \<and> epochSecs \<le> now - EntryTime s"

definition countsAsPartial :: "nat \<Rightarrow> nat \<Rightarrow> StakedInfo \<Rightarrow> bool" where
  "countsAsPartial now epochSecs s \<longleftrightarrow>
     Account s \<noteq> zeroAddress \<and> (now < EntryTime s \<or> now - EntryTime s < epochSecs)"

text \<open>
  The slots the second loop of the code pays: its guard is \<open>EntryTime < curTime\<close>, which
  differs from \<open>fullEpoch\<close> only for a slot entered at \<open>now\<close> when the epoch has length 0.
\<close>

definition paidInFull :: "nat \<Rightarrow> nat \<Rightarrow> StakedInfo \<Rightarrow> bool" where
  "paidInFull now epochSecs s \<longleftrightarrow>
     Account s \<noteq> zeroAddress \<and> EntryTime s < now \<and> epochSecs \<le> now - EntryTime s"

text \<open>
  Pass 1 for one reward stream (algo or token): in slot order, a partial slot is credited
  \<open>floor(balance * rewardAvail * timePercent / (S * 1000))\<close> with
  \<open>timePercent = floor(timeInPool * 1000 / epochSecs)\<close>, and the credit is taken out of the
  reward that is left for the slots after it.  \<open>spec_partialCredits\<close> is the list of the
  credits by slot, \<open>spec_residual\<close> the reward left after the pass.
\<close>

definition spec_partialCredit :: "nat \<Rightarrow> nat \<Rightarrow> nat \<Rightarrow> StakedInfo \<Rightarrow> nat \<Rightarrow> nat" where
  "spec_partialCredit S epochSecs now s rewardAvail =
     (if partialEpoch now epochSecs s
      then (Balance s * rewardAvail * (((now - EntryTime s) * 1000) div epochSecs)) div (S * 1000)
      else 0)"

fun spec_partialCredits :: "nat \<Rightarrow> nat \<Rightarrow> nat \<Rightarrow> StakedInfo list \<Rightarrow> nat \<Rightarrow> nat list" where
  "spec_partialCredits S epochSecs now [] rewardAvail = []"
| "spec_partialCredits S epochSecs now (s # rest) rewardAvail =
     spec_partialCredit S epochSecs now s rewardAvail #
     spec_partialCredits S epochSecs now rest
       (rewardAvail - spec_partialCredit S epochSecs now s rewardAvail)"

fun spec_residual :: "nat \<Rightarrow> nat \<Rightarrow> nat \<Rightarrow> StakedInfo list \<Rightarrow> nat \<Rightarrow> nat" where
  "spec_residual S epochSecs now [] rewardAvail = rewardAvail"
| "spec_residual S epochSecs now (s # rest) rewardAvail =
     spec_residual S epochSecs now rest
       (rewardAvail - spec_partialCredit S epochSecs now s rewardAvail)"

definition spec_partialTotal :: "nat \<Rightarrow> nat \<Rightarrow> StakedInfo list \<Rightarrow> nat" where
  "spec_partialTotal now epochSecs ledger =
     sum_list (map Balance (filter (countsAsPartial now epochSecs) ledger))"

text \<open>
  Pass 2: with \<open>effectiveStake = S - partialTotal\<close>, nothing is credited when
  \<open>effectiveStake = 0\<close>; otherwise a slot of the given kind is credited
  \<open>floor(residualReward * balance / effectiveStake)\<close>.  The kind is \<open>fullEpoch\<close> in the
  specification and \<open>paidInFull\<close> in the code.
\<close>

definition spec_fullCredit :: "(StakedInfo \<Rightarrow> bool) \<Rightarrow> nat \<Rightarrow> nat \<Rightarrow> StakedInfo \<Rightarrow> nat" where
  "spec_fullCredit full effectiveStake residual s =
     (if 0 < effectiveStake \<and> full s then (residual * Balance s) div effectiveStake else 0)"

definition spec_creditsOf ::
  "(StakedInfo \<Rightarrow> bool) \<Rightarrow> nat \<Rightarrow> nat \<Rightarrow> nat \<Rightarrow> StakedInfo list \<Rightarrow> nat \<Rightarrow> nat list" where
  "spec_creditsOf full S epochSecs now ledger reward =
     map2 (+) (spec_partialCredits S epochSecs now ledger reward)
       (map (spec_fullCredit full (S - spec_partialTotal now epochSecs ledger)
               (spec_residual S epochSecs now ledger reward)) ledger)"

definition spec_credits :: "nat \<Rightarrow> nat \<Rightarrow> nat \<Rightarrow> StakedInfo list \<Rightarrow> nat \<Rightarrow> nat list" where
  "spec_credits S epochSecs now ledger reward =
     spec_creditsOf (fullEpoch now epochSecs) S epochSecs now ledger reward"

text \<open>
  Crediting a slot: algo rewards go to \<open>Balance\<close> and \<open>TotalRewarded\<close>, token rewards to
  \<open>RewardTokenBalance\<close>.
\<close>

definition credit :: "StakedInfo \<Rightarrow> nat \<Rightarrow> nat \<Rightarrow> StakedInfo" where
  "credit s algo token =
     s\<lparr>Balance := Balance s + algo, TotalRewarded := TotalRewarded s + algo,
       RewardTokenBalance := RewardTokenBalance s + token\<rparr>"

fun creditAll :: "StakedInfo list \<Rightarrow> nat list \<Rightarrow> nat list \<Rightarrow> StakedInfo list" where
  "creditAll (s # rest) (a # algos) (t # tokens) = credit s a t # creditAll rest algos tokens"
| "creditAll ledger algos tokens = []"

text \<open>
  Invariants I1 and I2 of a pool: \<open>TotalAlgoStaked\<close> is the sum of the balances of the
  non-empty slots, and \<open>NumStakers\<close> is their number.
\<close>

definition nonEmpty :: "StakedInfo \<Rightarrow> bool" where
  "nonEmpty s \<longleftrightarrow> Account s \<noteq> zeroAddress"

definition ledgerConsistent :: "PoolState \<Rightarrow> bool" where
  "ledgerConsistent s \<longleftrightarrow>
     TotalAlgoStaked s = sum_list (map Balance (filter nonEmpty (Stakers s)))
     \<and> NumStakers s = length (filter nonEmpty (Stakers s))"

text \<open>The algo credited to the ledger balances between two states of the ledger.\<close>

definition algoCredited :: "StakedInfo list \<Rightarrow> StakedInfo list \<Rightarrow> nat" where
  "algoCredited before after = sum_list (map2 (\<lambda>b a. Balance a - Balance b) before after)"

text \<open>The payments among the inner transactions, and the amount paid to one receiver.\<close>

fun payments :: "effect list \<Rightarrow> effect list" where
  "payments [] = []"
| "payments (Payment receiver amount note # rest) = Payment receiver amount note # payments rest"
| "payments (e # rest) = payments rest"

fun paidTo :: "address \<Rightarrow> effect list \<Rightarrow> nat" where
  "paidTo a [] = 0"
| "paidTo a (Payment receiver amount note # rest) =
     (if receiver = a then amount else 0) + paidTo a rest"
| "paidTo a (e # rest) = paidTo a rest"

section \<open>The reward of an epoch in the words of the specification\<close>








section \<open>Sequences of calls\<close>

text \<open>
  The calls that change a pool.  Each call is one transaction: a call that fails is
  rolled back and leaves the state as it was.
\<close>

datatype poolCall =
    CallAddStake Env PayTxn address
  | CallRemoveStake Env nat
  | CallClaimTokens Env
  | CallEpochBalanceUpdate Env

fun commit :: "PoolState \<Rightarrow> error + (PoolState \<times> 'a) \<Rightarrow> PoolState" where
  "commit s (Inl e) = s"
| "commit s (Inr (s', r)) = s'"

fun applyCall :: "PoolState \<Rightarrow> poolCall \<Rightarrow> PoolState" where
  "applyCall s (CallAddStake env payment staker) = commit s (addStake env s payment staker)"
| "applyCall s (CallRemoveStake env amount) = commit s (removeStake env s amount)"
| "applyCall s (CallClaimTokens env) = commit s (claimTokens env s)"
| "applyCall s (CallEpochBalanceUpdate env) = commit s (epochBalanceUpdate env s)"







section \<open>Concrete states\<close>

text \<open>
  A pool of validator 1 whose first ledger slot was freed and whose second slot holds
  account 7, and the ambient values of a call by account 7.
\<close>

definition ex_env :: Env where
  "ex_env = \<lparr>txnSender = 7, latestTimestamp = 100000, appID = 55, appAddress = 555,
     appBalance = 0, appMinBalance = 0, creatorAddress = 99,
     validatorConfig = \<lparr>PayoutEveryXMins = 1, PercentToValidator = 50000,
        ValidatorCommissionAddress = 42, RewardTokenID = 0, RewardPerPayout = 0\<rparr>,
     validatorState = \<lparr>RewardTokenHeldBack = 0, vs_TotalAlgoStaked = 3000\<rparr>,
     PoolPctOfWhole = [], poolOneAssetBalance = 0, FeeSinkAddr = 66,
     MAX_VALIDATOR_PCT_OF_ONLINE = 100\<rparr>"

definition ex_pool :: PoolState where
  "ex_pool = \<lparr>CreatingValidatorContractAppID = 9, ValidatorID = 1, PoolID = 1, NumStakers = 1,
     TotalAlgoStaked = 3000, MinEntryStake = 1000, MaxStakeAllowed = 1000000,
     LastPayout = Some 0,
     Stakers = [\<lparr>Account = 0, Balance = 0, TotalRewarded = 0, RewardTokenBalance = 0,
                 EntryTime = 0\<rparr>,
                \<lparr>Account = 7, Balance = 3000, TotalRewarded = 0, RewardTokenBalance = 0,
                 EntryTime = 10\<rparr>]\<rparr>"

text \<open>The same call made by the registry (account 99), forwarding a payment of 1000.\<close>

definition ex_registry_env :: Env where
  "ex_registry_env = ex_env\<lparr>txnSender := 99\<rparr>"

definition ex_payment :: PayTxn where
  "ex_payment = \<lparr>pay_sender = 99, pay_receiver = 555, pay_amount = 1000\<rparr>"

text \<open>A registry with one validator that has one pool (application 77).\<close>

definition ex_constants :: Constants where
  "ex_constants = \<lparr>MIN_ALGO_STAKE_PER_POOL = 1000000, MAX_ALGO_PER_POOL = 20000000000000\<rparr>"

definition ex_config :: RegistryConfig where
  "ex_config = \<lparr>PayoutEveryXDays = 1, reg_PercentToValidator = 50000,
     reg_ValidatorCommissionAddress = 42, MinAllowedStake = 1000000,
     MaxAlgoPerPool = 1000000000, PoolsPerNode = 3, MaxNodes = 2\<rparr>"

definition ex_registry :: RegistryState where
  "ex_registry = \<lparr>numValidators = 1,
     ValidatorList = [1 \<mapsto>
       \<lparr>ID = 1, Owner = 5, Manager = 6, NFDForInfo = 0, Config = ex_config,
        State = \<lparr>NumPools = 1, TotalStakers = 0, reg_TotalAlgoStaked = 0\<rparr>,
        Nodes = replicate MAX_NODES emptyNodeInfo,
        Pools = emptyPoolInfo\<lparr>PoolAppID := 77\<rparr> # replicate 47 emptyPoolInfo\<rparr>],
     StakerPoolSet = Map.empty\<rparr>"

text \<open>The same registry when the only pool holds 999000000 of the 1000000000 allowed.\<close>

definition ex_registry_full :: RegistryState where
  "ex_registry_full = ex_registry\<lparr>ValidatorList := [1 \<mapsto>
       \<lparr>ID = 1, Owner = 5, Manager = 6, NFDForInfo = 0, Config = ex_config,
        State = \<lparr>NumPools = 1, TotalStakers = 1, reg_TotalAlgoStaked = 999000000\<rparr>,
        Nodes = replicate MAX_NODES emptyNodeInfo,
        Pools = \<lparr>NodeID = 0, PoolAppID = 77, pool_TotalStakers = 1,
                  pool_TotalAlgoStaked = 999000000\<rparr> # replicate 47 emptyPoolInfo\<rparr>]\<rparr>"

text \<open>
  A payout.  The epoch is one minute and ends at time 100000.  Account 7 entered long
  before the epoch, account 8 entered 30 seconds before its end; each holds 1000 Algo
  (in microalgos).  The pool's balance is the stake, the minimum balance of 100000 and a
  reward of 100 Algo.  The commission is 5%.
\<close>

definition payout_env :: Env where
  "payout_env = \<lparr>txnSender = 3, latestTimestamp = 100000, appID = 55, appAddress = 555,
     appBalance = 2100100000, appMinBalance = 100000, creatorAddress = 99,
     validatorConfig = \<lparr>PayoutEveryXMins = 1, PercentToValidator = 50000,
        ValidatorCommissionAddress = 42, RewardTokenID = 0, RewardPerPayout = 0\<rparr>,
     validatorState = \<lparr>RewardTokenHeldBack = 0, vs_TotalAlgoStaked = 2000000000\<rparr>,
     PoolPctOfWhole = [], poolOneAssetBalance = 0, FeeSinkAddr = 66,
     MAX_VALIDATOR_PCT_OF_ONLINE = 100\<rparr>"

definition payout_pool :: PoolState where
  "payout_pool = \<lparr>CreatingValidatorContractAppID = 9, ValidatorID = 1, PoolID = 1,
     NumStakers = 2, TotalAlgoStaked = 2000000000, MinEntryStake = 1000000,
     MaxStakeAllowed = 1000000000000, LastPayout = Some 99000,
     Stakers = [\<lparr>Account = 7, Balance = 1000000000, TotalRewarded = 0,
                 RewardTokenBalance = 0, EntryTime = 10\<rparr>,
                \<lparr>Account = 8, Balance = 1000000000, TotalRewarded = 0,
                 RewardTokenBalance = 0, EntryTime = 99970\<rparr>]\<rparr>"

text \<open>The state after the payout: 5 Algo of commission, 23.75 Algo to account 8, 71.25 to 7.\<close>

definition payout_pool_after :: PoolState where
  "payout_pool_after = payout_pool\<lparr>TotalAlgoStaked := 2095000000, LastPayout := Some 100000,
     Stakers := [\<lparr>Account = 7, Balance = 1071250000, TotalRewarded = 71250000,
                  RewardTokenBalance = 0, EntryTime = 10\<rparr>,
                 \<lparr>Account = 8, Balance = 1023750000, TotalRewarded = 23750000,
                  RewardTokenBalance = 0, EntryTime = 99970\<rparr>]\<rparr>"

text \<open>The same payout when the validator's total stake is above the protocol maximum.\<close>

definition payout_env_capped :: Env where
  "payout_env_capped =
     payout_env\<lparr>validatorState := \<lparr>RewardTokenHeldBack = 0,
                                     vs_TotalAlgoStaked = 300000000000000\<rparr>\<rparr>"

text \<open>
  A pool whose only staker, account 8, entered 30 seconds before the end of the epoch,
  with a reward of 100 Algo.
\<close>

definition newcomer_env :: Env where
  "newcomer_env = payout_env\<lparr>appBalance := 1100100000,
     validatorState := \<lparr>RewardTokenHeldBack = 0, vs_TotalAlgoStaked = 1000000000\<rparr>\<rparr>"

definition newcomer_pool :: PoolState where
  "newcomer_pool = payout_pool\<lparr>NumStakers := 1, TotalAlgoStaked := 1000000000,
     Stakers := [\<lparr>Account = 8, Balance = 1000000000, TotalRewarded = 0,
                  RewardTokenBalance = 0, EntryTime = 99970\<rparr>]\<rparr>"

definition newcomer_pool_after :: PoolState where
  "newcomer_pool_after = newcomer_pool\<lparr>TotalAlgoStaked := 1047500000,
     LastPayout := Some 100000,
     Stakers := [\<lparr>Account = 8, Balance = 1047500000, TotalRewarded = 47500000,
                  RewardTokenBalance = 0, EntryTime = 99970\<rparr>]\<rparr>"

text \<open>
  A second payout of the first pool one minute later, after another 10 Algo of reward
  arrived, and a call that comes 30 seconds after the first payout.
\<close>

definition payout_env_next :: Env where
  "payout_env_next = payout_env\<lparr>latestTimestamp := 100060, appBalance := 2105100000,
     validatorState := \<lparr>RewardTokenHeldBack = 0, vs_TotalAlgoStaked = 2095000000\<rparr>\<rparr>"

definition payout_env_early :: Env where
  "payout_env_early = payout_env_next\<lparr>latestTimestamp := 100030\<rparr>"

text \<open>A pool with two empty ledger slots and no stake.\<close>

definition fresh_pool :: PoolState where
  "fresh_pool = ex_pool\<lparr>NumStakers := 0, TotalAlgoStaked := 0,
     Stakers := [\<lparr>Account = 0, Balance = 0, TotalRewarded = 0, RewardTokenBalance = 0,
                  EntryTime = 0\<rparr>,
                 \<lparr>Account = 0, Balance = 0, TotalRewarded = 0, RewardTokenBalance = 0,
                  EntryTime = 0\<rparr>]\<rparr>"






text \<open>
  A pool whose validator has \<open>PayoutEveryXMins = 0\<close>.  Its only staker, account 7, holds
  1000 Algo with entry time 100000; the last payout was at 100000, and the next call comes
  at that same time with a reward of 100 Algo.
\<close>

definition epoch0_env :: Env where
  "epoch0_env = payout_env\<lparr>appBalance := 1100100000,
     validatorConfig := \<lparr>PayoutEveryXMins = 0, PercentToValidator = 50000,
        ValidatorCommissionAddress = 42, RewardTokenID = 0, RewardPerPayout = 0\<rparr>,
     validatorState := \<lparr>RewardTokenHeldBack = 0, vs_TotalAlgoStaked = 1000000000\<rparr>\<rparr>"

definition epoch0_pool :: PoolState where
  "epoch0_pool = payout_pool\<lparr>NumStakers := 1, TotalAlgoStaked := 1000000000,
     LastPayout := Some 100000,
     Stakers := [\<lparr>Account = 7, Balance = 1000000000, TotalRewarded = 0,
                  RewardTokenBalance = 0, EntryTime = 100000\<rparr>]\<rparr>"

text \<open>
  The payout of the pool of accounts 7 and 8 above the protocol cap when only half an
  Algo of reward has come in.
\<close>

definition payout_env_small :: Env where
  "payout_env_small = payout_env_capped\<lparr>appBalance := 2000600000\<rparr>"

section \<open>Basic facts\<close>

lemma rbind_Inr_iff: "rbind m f = Inr y \<longleftrightarrow> (\<exists>x. m = Inr x \<and> f x = Inr y)"
  by (cases m) auto

lemma assert_Inr_iff: "assert c e = Inr u \<longleftrightarrow> c"
  by (simp add: assert_def)

lemma u64_add_Inr_iff: "u64_add a b = Inr c \<longleftrightarrow> c = a + b \<and> a + b \<le> u64_max"
  by (auto simp: u64_add_def)

lemma u64_sub_Inr_iff: "u64_sub a b = Inr c \<longleftrightarrow> c = a - b \<and> b \<le> a"
  by (auto simp: u64_sub_def)

lemmas ex_defs = ex_env_def ex_pool_def ex_registry_env_def ex_payment_def

lemmas u64_defs = u64_add_def u64_sub_def u64_mul_def u64_div_def u64_max_def assert_def
  nth_checked_def zeroAddress_def

lemmas reg_defs = ex_registry_def ex_config_def ex_constants_def MAX_NODES_def MAX_POOLS_def
  MAX_POOLS_PER_NODE_def MIN_PAYOUT_DAYS_def MAX_PAYOUT_DAYS_def MIN_PCT_TO_VALIDATOR_def
  MAX_PCT_TO_VALIDATOR_def emptyPoolInfo_def emptyNodeInfo_def

section \<open>The ledger scan of removeStake and claimTokens\<close>





section \<open>The payout passes compute the allocation of the specification\<close>

lemma wideRatio_Inr_iff:
  "wideRatio nums dens = Inr q \<longleftrightarrow>
     prod_list dens \<noteq> 0 \<and> prod_list nums < 2 ^ 128 \<and> prod_list dens < 2 ^ 128
     \<and> q = prod_list nums div prod_list dens \<and> q \<le> u64_max"
  by (auto simp: wideRatio_def)

lemma u64_mul_Inr_iff: "u64_mul a b = Inr c \<longleftrightarrow> c = a * b \<and> a * b \<le> u64_max"
  by (auto simp: u64_mul_def)

lemma u64_div_Inr_iff: "u64_div a b = Inr c \<longleftrightarrow> c = a div b \<and> b \<noteq> 0"
  by (auto simp: u64_div_def)

lemmas Inr_iffs = rbind_Inr_iff assert_Inr_iff u64_add_Inr_iff u64_sub_Inr_iff u64_mul_Inr_iff
  u64_div_Inr_iff wideRatio_Inr_iff

lemma partialTokenCredit_Inr:
  assumes "partialTokenCredit S tp s acc = Inr (s', acc')"
  defines "c \<equiv> (Balance s * tokenRewardAvail acc * tp) div (S * 1000)"
  shows "s' = credit s 0 c \<and> c \<le> tokenRewardAvail acc
         \<and> acc' = acc\<lparr>tokenRewardAvail := tokenRewardAvail acc - c,
                      tokenRewardPaidOut := tokenRewardPaidOut acc + c\<rparr>"
  using assms
  by (auto simp: partialTokenCredit_def credit_def Inr_iffs mult.assoc split: if_splits)

lemma partialAlgoCredit_Inr:
  assumes "partialAlgoCredit S tp s acc = Inr (s', acc')"
  defines "c \<equiv> (Balance s * algoRewardAvail acc * tp) div (S * 1000)"
  shows "s' = credit s c 0 \<and> c \<le> algoRewardAvail acc
         \<and> acc' = acc\<lparr>algoRewardAvail := algoRewardAvail acc - c,
                      increasedStake := increasedStake acc + c\<rparr>"
  using assms
  by (auto simp: partialAlgoCredit_def credit_def Inr_iffs mult.assoc split: if_splits)

lemma credit_credit: "credit (credit s a t) a' t' = credit s (a + a') (t + t')"
  by (simp add: credit_def add.assoc)

lemma credit_zero: "credit s 0 0 = s"
  by (simp add: credit_def)

lemma payPartialStaker_Inr:
  assumes "payPartialStaker now eps S s acc = Inr (s', acc')"
  defines "ca \<equiv> spec_partialCredit S eps now s (algoRewardAvail acc)"
      and "ct \<equiv> spec_partialCredit S eps now s (tokenRewardAvail acc)"
  shows "s' = credit s ca ct \<and> ca \<le> algoRewardAvail acc \<and> ct \<le> tokenRewardAvail acc
         \<and> acc' = \<lparr>algoRewardAvail = algoRewardAvail acc - ca,
                   tokenRewardAvail = tokenRewardAvail acc - ct,
                   tokenRewardPaidOut = tokenRewardPaidOut acc + ct,
                   increasedStake = increasedStake acc + ca,
                   partialStakersTotalStake = partialStakersTotalStake acc
                     + (if countsAsPartial now eps s then Balance s else 0)\<rparr>"
proof (cases "partialEpoch now eps s")
  case True
  then have ne: "Account s \<noteq> zeroAddress" and le: "EntryTime s \<le> now"
    and lt: "now - EntryTime s < eps"
    by (simp_all add: partialEpoch_def)
  from True have cap: "countsAsPartial now eps s"
    by (simp add: partialEpoch_def countsAsPartial_def)
  define tp where "tp = ((now - EntryTime s) * 1000) div eps"
  from assms(1) ne le lt obtain s1 acc1 where
    tok: "partialTokenCredit S tp s
            (acc\<lparr>partialStakersTotalStake := partialStakersTotalStake acc + Balance s\<rparr>)
          = Inr (s1, acc1)"
    and alg: "partialAlgoCredit S tp s1 acc1 = Inr (s', acc')"
    unfolding payPartialStaker_def tp_def
    by (auto simp: Inr_iffs not_less[symmetric])
  from partialTokenCredit_Inr[OF tok] partialAlgoCredit_Inr[OF alg] True cap
  show ?thesis
    unfolding ca_def ct_def spec_partialCredit_def tp_def[symmetric]
    by (simp add: credit_credit credit_def)
next
  case False
  then have zero: "ca = 0" "ct = 0"
    by (simp_all add: ca_def ct_def spec_partialCredit_def)
  show ?thesis
  proof (cases "countsAsPartial now eps s")
    case True
    with False have "Account s \<noteq> zeroAddress" "now < EntryTime s"
      by (auto simp: countsAsPartial_def partialEpoch_def)
    with assms(1) True show ?thesis
      unfolding zero by (auto simp: payPartialStaker_def Inr_iffs credit_zero)
  next
    case no: False
    with False have "Account s = zeroAddress \<or> (EntryTime s \<le> now \<and> \<not> now - EntryTime s < eps)"
      by (auto simp: countsAsPartial_def partialEpoch_def)
    with assms(1) no show ?thesis
      unfolding zero by (auto simp: payPartialStaker_def Inr_iffs credit_zero split: if_splits)
  qed
qed

lemma length_spec_partialCredits [simp]:
  "length (spec_partialCredits S eps now ledger A) = length ledger"
  by (induction ledger arbitrary: A) simp_all

lemma spec_partialTotal_Cons:
  "spec_partialTotal now eps (s # rest) =
     (if countsAsPartial now eps s then Balance s else 0) + spec_partialTotal now eps rest"
  by (simp add: spec_partialTotal_def)

lemma pass1_refines:
  assumes "ledgerLoop (payPartialStaker now eps S) ledger acc = Inr (ledger', acc')"
  shows "ledger' = creditAll ledger (spec_partialCredits S eps now ledger (algoRewardAvail acc))
                     (spec_partialCredits S eps now ledger (tokenRewardAvail acc))
         \<and> acc' = \<lparr>algoRewardAvail = spec_residual S eps now ledger (algoRewardAvail acc),
                   tokenRewardAvail = spec_residual S eps now ledger (tokenRewardAvail acc),
                   tokenRewardPaidOut = tokenRewardPaidOut acc
                     + sum_list (spec_partialCredits S eps now ledger (tokenRewardAvail acc)),
                   increasedStake = increasedStake acc
                     + sum_list (spec_partialCredits S eps now ledger (algoRewardAvail acc)),
                   partialStakersTotalStake = partialStakersTotalStake acc
                     + spec_partialTotal now eps ledger\<rparr>
         \<and> sum_list (spec_partialCredits S eps now ledger (algoRewardAvail acc))
             + spec_residual S eps now ledger (algoRewardAvail acc) = algoRewardAvail acc
         \<and> sum_list (spec_partialCredits S eps now ledger (tokenRewardAvail acc))
             + spec_residual S eps now ledger (tokenRewardAvail acc) = tokenRewardAvail acc"
  using assms
proof (induction ledger arbitrary: acc ledger' acc')
  case Nil
  then show ?case by (simp add: spec_partialTotal_def)
next
  case (Cons s rest)
  from Cons.prems obtain s1 acc1 rest1 where
    step: "payPartialStaker now eps S s acc = Inr (s1, acc1)"
    and loop: "ledgerLoop (payPartialStaker now eps S) rest acc1 = Inr (rest1, acc')"
    and res: "ledger' = s1 # rest1"
    by (auto simp: rbind_Inr_iff)
  note st = payPartialStaker_Inr[OF step]
  note ih = Cons.IH[OF loop]
  from st have a1: "algoRewardAvail acc1
      = algoRewardAvail acc - spec_partialCredit S eps now s (algoRewardAvail acc)"
    and t1: "tokenRewardAvail acc1
      = tokenRewardAvail acc - spec_partialCredit S eps now s (tokenRewardAvail acc)"
    by simp_all
  from st ih show ?case
    unfolding res a1 t1
    by (auto simp add: spec_partialTotal_Cons)
qed

lemma payFullStaker_Inr:
  assumes "payFullStaker now eps E s acc = Inr (s', acc')" and "0 < E"
  defines "ca \<equiv> spec_fullCredit (paidInFull now eps) E (algoRewardAvail acc) s"
      and "ct \<equiv> spec_fullCredit (paidInFull now eps) E (tokenRewardAvail acc) s"
  shows "s' = credit s ca ct
         \<and> acc' = acc\<lparr>tokenRewardPaidOut := tokenRewardPaidOut acc + ct,
                      increasedStake := increasedStake acc + ca\<rparr>"
proof (cases "paidInFull now eps s")
  case True
  then have g: "Account s \<noteq> zeroAddress" "EntryTime s < now" "eps \<le> now - EntryTime s"
    by (simp_all add: paidInFull_def)
  from assms(1) g obtain s1 acc1 where
    tok: "fullTokenCredit E s acc = Inr (s1, acc1)"
    and alg: "fullAlgoCredit E s1 acc1 = Inr (s', acc')"
    by (auto simp: payFullStaker_def Inr_iffs)
  from tok have s1: "s1 = credit s 0 ct
      \<and> acc1 = acc\<lparr>tokenRewardPaidOut := tokenRewardPaidOut acc + ct\<rparr>"
    using True \<open>0 < E\<close>
    by (auto simp: fullTokenCredit_def ct_def spec_fullCredit_def credit_def Inr_iffs
          mult.commute split: if_splits)
  from alg have "s' = credit s1 ca 0 \<and> acc' = acc1\<lparr>increasedStake := increasedStake acc1 + ca\<rparr>"
    using True \<open>0 < E\<close> s1
    by (auto simp: fullAlgoCredit_def ca_def spec_fullCredit_def credit_def Inr_iffs
          mult.commute split: if_splits)
  with s1 show ?thesis by (simp add: credit_credit)
next
  case False
  then have zero: "ca = 0" "ct = 0"
    by (simp_all add: ca_def ct_def spec_fullCredit_def)
  from False assms(1) have "s' = s \<and> acc' = acc"
    by (auto simp: payFullStaker_def paidInFull_def Inr_iffs split: if_splits)
  then show ?thesis unfolding zero by (simp add: credit_zero)
qed

lemma pass2_refines:
  assumes "ledgerLoop (payFullStaker now eps E) ledger acc = Inr (ledger', acc')" and "0 < E"
  shows "ledger' = creditAll ledger
                     (map (spec_fullCredit (paidInFull now eps) E (algoRewardAvail acc)) ledger)
                     (map (spec_fullCredit (paidInFull now eps) E (tokenRewardAvail acc)) ledger)
         \<and> acc' = acc\<lparr>tokenRewardPaidOut := tokenRewardPaidOut acc
                        + sum_list (map (spec_fullCredit (paidInFull now eps) E
                                           (tokenRewardAvail acc)) ledger),
                      increasedStake := increasedStake acc
                        + sum_list (map (spec_fullCredit (paidInFull now eps) E
                                           (algoRewardAvail acc)) ledger)\<rparr>"
  using assms(1)
proof (induction ledger arbitrary: acc ledger' acc')
  case Nil
  then show ?case by simp
next
  case (Cons s rest)
  from Cons.prems obtain s1 acc1 rest1 where
    step: "payFullStaker now eps E s acc = Inr (s1, acc1)"
    and loop: "ledgerLoop (payFullStaker now eps E) rest acc1 = Inr (rest1, acc')"
    and res: "ledger' = s1 # rest1"
    by (auto simp: rbind_Inr_iff)
  note st = payFullStaker_Inr[OF step \<open>0 < E\<close>]
  note ih = Cons.IH[OF loop]
  from st have "algoRewardAvail acc1 = algoRewardAvail acc"
    "tokenRewardAvail acc1 = tokenRewardAvail acc" by simp_all
  with st ih show ?case unfolding res by simp
qed

lemma creditAll_creditAll:
  "length as1 = length ledger \<Longrightarrow> length ts1 = length ledger \<Longrightarrow>
   length as2 = length ledger \<Longrightarrow> length ts2 = length ledger \<Longrightarrow>
   creditAll (creditAll ledger as1 ts1) as2 ts2
     = creditAll ledger (map2 (+) as1 as2) (map2 (+) ts1 ts2)"
proof (induction ledger arbitrary: as1 ts1 as2 ts2)
  case Nil
  then show ?case by simp
next
  case (Cons s rest)
  then obtain a1 as1' t1 ts1' a2 as2' t2 ts2' where
    "as1 = a1 # as1'" "ts1 = t1 # ts1'" "as2 = a2 # as2'" "ts2 = t2 # ts2'"
    by (metis length_Suc_conv)
  with Cons show ?case by (simp add: credit_credit)
qed

lemma paidInFull_credit:
  "paidInFull now eps (credit s a t) = paidInFull now eps s"
  by (simp add: paidInFull_def credit_def)

lemma paidInFull_not_partial: "paidInFull now eps s \<Longrightarrow> \<not> partialEpoch now eps s"
  by (auto simp: paidInFull_def partialEpoch_def)

lemma fullCredit_after_pass1:
  "map (spec_fullCredit (paidInFull now eps) E R)
     (creditAll ledger (spec_partialCredits S eps now ledger A)
        (spec_partialCredits S eps now ledger T))
   = map (spec_fullCredit (paidInFull now eps) E R) ledger"
proof (induction ledger arbitrary: A T)
  case Nil
  then show ?case by simp
next
  case (Cons s rest)
  have "spec_fullCredit (paidInFull now eps) E R
          (credit s (spec_partialCredit S eps now s A) (spec_partialCredit S eps now s T))
        = spec_fullCredit (paidInFull now eps) E R s"
  proof (cases "paidInFull now eps s")
    case True
    then have "spec_partialCredit S eps now s A = 0"
      by (simp add: spec_partialCredit_def paidInFull_not_partial)
    then show ?thesis
      by (simp add: spec_fullCredit_def paidInFull_credit) (simp add: credit_def)
  next
    case False
    then show ?thesis by (simp add: spec_fullCredit_def paidInFull_credit)
  qed
  with Cons.IH show ?case by simp
qed

lemma map2_add_zero:
  "length xs = length ledger \<Longrightarrow> map2 (+) xs (map (\<lambda>s. 0::nat) ledger) = xs"
proof (induction ledger arbitrary: xs)
  case Nil
  then show ?case by simp
next
  case (Cons s rest)
  then obtain x xs' where "xs = x # xs'" by (metis length_Suc_conv)
  with Cons show ?case by simp
qed

lemma spec_fullCredit_no_stake: "spec_fullCredit full 0 R = (\<lambda>s. 0)"
  by (rule ext) (simp add: spec_fullCredit_def)

lemma sum_list_map2_add:
  "length xs = length ys \<Longrightarrow> sum_list (map2 (+) xs ys) = sum_list xs + sum_list (ys::nat list)"
  by (induction xs ys rule: list_induct2) simp_all

lemma payStakers_refines:
  assumes run: "payStakers now eps S ledger acc = Inr (ledger', acc')"
    and zero: "partialStakersTotalStake acc = 0"
  shows "ledger' = creditAll ledger
                     (spec_creditsOf (paidInFull now eps) S eps now ledger (algoRewardAvail acc))
                     (spec_creditsOf (paidInFull now eps) S eps now ledger (tokenRewardAvail acc))
         \<and> increasedStake acc' = increasedStake acc
             + sum_list (spec_creditsOf (paidInFull now eps) S eps now ledger (algoRewardAvail acc))
         \<and> tokenRewardPaidOut acc' = tokenRewardPaidOut acc
             + sum_list (spec_creditsOf (paidInFull now eps) S eps now ledger (tokenRewardAvail acc))
         \<and> spec_partialTotal now eps ledger \<le> S
         \<and> sum_list (spec_partialCredits S eps now ledger (algoRewardAvail acc))
             + spec_residual S eps now ledger (algoRewardAvail acc) = algoRewardAvail acc
         \<and> sum_list (spec_partialCredits S eps now ledger (tokenRewardAvail acc))
             + spec_residual S eps now ledger (tokenRewardAvail acc) = tokenRewardAvail acc
         \<and> algoRewardAvail acc' = spec_residual S eps now ledger (algoRewardAvail acc)
         \<and> tokenRewardAvail acc' = spec_residual S eps now ledger (tokenRewardAvail acc)
         \<and> partialStakersTotalStake acc' = spec_partialTotal now eps ledger"
proof -
  define E where "E = S - spec_partialTotal now eps ledger"
  let ?A = "algoRewardAvail acc" and ?T = "tokenRewardAvail acc"
  from run obtain ledger1 acc1 where
    p1: "ledgerLoop (payPartialStaker now eps S) ledger acc = Inr (ledger1, acc1)"
    and sub: "partialStakersTotalStake acc1 \<le> S"
    and p2: "(if 0 < S - partialStakersTotalStake acc1
              then ledgerLoop (payFullStaker now eps (S - partialStakersTotalStake acc1)) ledger1 acc1
              else Inr (ledger1, acc1)) = Inr (ledger', acc')"
    by (auto simp: payStakers_def Inr_iffs)
  note r1 = pass1_refines[OF p1]
  from r1 zero have P: "partialStakersTotalStake acc1 = spec_partialTotal now eps ledger"
    by simp
  from r1 have l1: "ledger1 = creditAll ledger (spec_partialCredits S eps now ledger ?A)
                                (spec_partialCredits S eps now ledger ?T)"
    and A1: "algoRewardAvail acc1 = spec_residual S eps now ledger ?A"
    and T1: "tokenRewardAvail acc1 = spec_residual S eps now ledger ?T"
    and I1: "increasedStake acc1 = increasedStake acc + sum_list (spec_partialCredits S eps now ledger ?A)"
    and O1: "tokenRewardPaidOut acc1 = tokenRewardPaidOut acc + sum_list (spec_partialCredits S eps now ledger ?T)"
    by simp_all
  have cons: "sum_list (spec_partialCredits S eps now ledger ?A)
             + spec_residual S eps now ledger ?A = ?A"
    "sum_list (spec_partialCredits S eps now ledger ?T)
             + spec_residual S eps now ledger ?T = ?T"
    using r1 by simp_all
  show ?thesis
  proof (cases "0 < E")
    case True
    with p2 P have loop: "ledgerLoop (payFullStaker now eps E) ledger1 acc1 = Inr (ledger', acc')"
      by (simp add: E_def)
    note r2 = pass2_refines[OF loop True]
    from r2 have l2: "ledger' = creditAll ledger1
        (map (spec_fullCredit (paidInFull now eps) E (spec_residual S eps now ledger ?A)) ledger)
        (map (spec_fullCredit (paidInFull now eps) E (spec_residual S eps now ledger ?T)) ledger)"
      unfolding A1 T1 l1 fullCredit_after_pass1 by simp
    have led: "ledger' = creditAll ledger
                     (spec_creditsOf (paidInFull now eps) S eps now ledger ?A)
                     (spec_creditsOf (paidInFull now eps) S eps now ledger ?T)"
      unfolding l2 l1 spec_creditsOf_def E_def[symmetric]
      by (rule creditAll_creditAll) simp_all
    from r2 have "increasedStake acc' = increasedStake acc1
        + sum_list (map (spec_fullCredit (paidInFull now eps) E (spec_residual S eps now ledger ?A)) ledger)"
      and "tokenRewardPaidOut acc' = tokenRewardPaidOut acc1
        + sum_list (map (spec_fullCredit (paidInFull now eps) E (spec_residual S eps now ledger ?T)) ledger)"
      unfolding A1 T1 l1 fullCredit_after_pass1 by simp_all
    then have "increasedStake acc' = increasedStake acc
             + sum_list (spec_creditsOf (paidInFull now eps) S eps now ledger ?A)"
      and "tokenRewardPaidOut acc' = tokenRewardPaidOut acc
             + sum_list (spec_creditsOf (paidInFull now eps) S eps now ledger ?T)"
      unfolding spec_creditsOf_def E_def[symmetric] I1 O1
      by (simp_all add: sum_list_map2_add)
    moreover from r2 A1 T1 P have "algoRewardAvail acc' = spec_residual S eps now ledger ?A"
      "tokenRewardAvail acc' = spec_residual S eps now ledger ?T"
      "partialStakersTotalStake acc' = spec_partialTotal now eps ledger"
      by simp_all
    ultimately show ?thesis using led sub P cons by simp
  next
    case False
    with p2 P have same: "ledger' = ledger1" "acc' = acc1"
      by (simp_all add: E_def)
    from False have cr: "spec_creditsOf (paidInFull now eps) S eps now ledger R
                         = spec_partialCredits S eps now ledger R" for R
      unfolding spec_creditsOf_def E_def[symmetric]
      by (simp add: spec_fullCredit_no_stake map2_add_zero)
    from same l1 I1 O1 A1 T1 sub P cons show ?thesis by (simp add: cr)
  qed
qed

section \<open>epochBalanceUpdate as a whole\<close>

lemmas payout_defs = payout_env_def payout_pool_def payout_pool_after_def payout_env_capped_def
  newcomer_env_def newcomer_pool_def newcomer_pool_after_def payout_env_next_def
  payout_env_early_def payout_env_small_def epoch0_env_def epoch0_pool_def


lemmas epoch_defs = epochBalanceUpdate_def epochGate_def maxAllowedStake_def getCurrentOnlineStake_def
  tokenRewardForPool_def payValidator_def payStakers_def payPartialStaker_def payFullStaker_def
  partialTokenCredit_def partialAlgoCredit_def fullTokenCredit_def fullAlgoCredit_def
  wideRatio_def poolKey_def

lemma payout_run:
  "epochBalanceUpdate payout_env payout_pool =
     Inr (payout_pool_after,
          [LastPayoutWrite 100000, Payment 42 5000000 ''validator reward'',
           StakeUpdatedViaRewardsCall \<lparr>key_ID = 1, key_PoolID = 1, key_PoolAppID = 55\<rparr> 95000000 0])"
  by (simp add: payout_defs epoch_defs u64_defs)


lemma newcomer_run:
  "epochBalanceUpdate newcomer_env newcomer_pool =
     Inr (newcomer_pool_after,
          [LastPayoutWrite 100000, Payment 42 5000000 ''validator reward'',
           StakeUpdatedViaRewardsCall \<lparr>key_ID = 1, key_PoolID = 1, key_PoolAppID = 55\<rparr> 47500000 0])"
  by (simp add: payout_defs epoch_defs u64_defs)

lemma payValidator_capped:
  "payValidator env True reward =
     Inr (0, [Payment (FeeSinkAddr env) reward
                ''validator exceeded protocol max, rewards sent back to fee sink''])"
  by (simp add: payValidator_def)

lemma payValidator_Inr:
  assumes "payValidator env False reward = Inr (algoLeft, pays)"
  defines "pay \<equiv> (reward * PercentToValidator (validatorConfig env)) div 1000000"
  shows "pay \<le> reward \<and> algoLeft = reward - pay
         \<and> pays = (if 0 < pay
                    then [Payment (ValidatorCommissionAddress (validatorConfig env)) pay
                            ''validator reward'']
                    else [])"
  using assms
  by (auto simp: payValidator_def Inr_iffs split: if_splits)

lemma spec_partialCredit_no_reward: "spec_partialCredit S eps now s 0 = 0"
  by (simp add: spec_partialCredit_def)

lemma spec_partialCredits_no_reward:
  "spec_partialCredits S eps now ledger 0 = map (\<lambda>s. 0) ledger"
  by (induction ledger) (simp_all add: spec_partialCredit_no_reward)

lemma spec_residual_no_reward: "spec_residual S eps now ledger 0 = 0"
  by (induction ledger) (simp_all add: spec_partialCredit_no_reward)

lemma spec_creditsOf_no_reward:
  "spec_creditsOf full S eps now ledger 0 = map (\<lambda>s. 0) ledger"
proof -
  have "spec_fullCredit full E 0 = (\<lambda>s. 0)" for E
    by (rule ext) (simp add: spec_fullCredit_def)
  then show ?thesis
    by (simp add: spec_creditsOf_def spec_partialCredits_no_reward spec_residual_no_reward
          map2_add_zero)
qed

lemma creditAll_nothing:
  "creditAll ledger (map (\<lambda>s. 0) ledger) (map (\<lambda>s. 0) ledger) = ledger"
  by (induction ledger) (simp_all add: credit_zero)

lemma length_spec_creditsOf [simp]:
  "length (spec_creditsOf full S eps now ledger reward) = length ledger"
  by (simp add: spec_creditsOf_def)

lemma payments_append: "payments (xs @ ys) = payments xs @ payments ys"
  by (induction xs rule: payments.induct) simp_all

text \<open>What a successful call of \<open>epochBalanceUpdate\<close> has done.\<close>

lemma epochBalanceUpdate_Inr:
  assumes run: "epochBalanceUpdate env s = Inr (s', effs)"
  defines "now \<equiv> latestTimestamp env"
      and "eps \<equiv> PayoutEveryXMins (validatorConfig env) * 60"
      and "S \<equiv> TotalAlgoStaked s"
      and "reward \<equiv> appBalance env - TotalAlgoStaked s - appMinBalance env"
  shows "\<exists>maxStake tokenReward algoLeft pays.
           maxAllowedStake env = Inr maxStake
           \<and> tokenRewardForPool env s = Inr tokenReward
           \<and> payValidator env (maxStake < vs_TotalAlgoStaked (validatorState env)) reward
               = Inr (algoLeft, pays)
           \<and> S + appMinBalance env \<le> appBalance env
           \<and> (tokenReward = 0 \<longrightarrow> 1000000 < reward)
           \<and> (\<forall>t. LastPayout s = Some t \<longrightarrow> t + eps \<le> now)
           \<and> s' = s\<lparr>LastPayout := Some now,
                    Stakers := creditAll (Stakers s)
                      (spec_creditsOf (paidInFull now eps) S eps now (Stakers s) algoLeft)
                      (spec_creditsOf (paidInFull now eps) S eps now (Stakers s) tokenReward),
                    TotalAlgoStaked := S
                      + sum_list (spec_creditsOf (paidInFull now eps) S eps now (Stakers s) algoLeft)\<rparr>
           \<and> payments effs = pays
           \<and> sum_list (spec_partialCredits S eps now (Stakers s) algoLeft)
               + spec_residual S eps now (Stakers s) algoLeft = algoLeft
           \<and> sum_list (spec_partialCredits S eps now (Stakers s) tokenReward)
               + spec_residual S eps now (Stakers s) tokenReward = tokenReward
           \<and> effs = LastPayoutWrite now # pays @
               (if algoLeft = 0 \<and> tokenReward = 0 then []
                else [StakeUpdatedViaRewardsCall (poolKey env s)
                        (sum_list (spec_creditsOf (paidInFull now eps) S eps now (Stakers s) algoLeft))
                        (sum_list (spec_creditsOf (paidInFull now eps) S eps now (Stakers s)
                                     tokenReward))])
           \<and> (algoLeft = 0 \<and> tokenReward = 0
                \<or> (\<exists>acc. payStakers now eps S (Stakers s)
                             \<lparr>algoRewardAvail = algoLeft, tokenRewardAvail = tokenReward,
                              tokenRewardPaidOut = 0, increasedStake = 0,
                              partialStakersTotalStake = 0\<rparr> = Inr (Stakers s', acc)
                          \<and> algoRewardAvail acc = spec_residual S eps now (Stakers s) algoLeft
                          \<and> tokenRewardAvail acc = spec_residual S eps now (Stakers s) tokenReward
                          \<and> partialStakersTotalStake acc = spec_partialTotal now eps (Stakers s)))"
proof -
  let ?s1 = "s\<lparr>LastPayout := Some now\<rparr>"
  from run obtain maxStake tokenReward algoLeft pays where
    gate: "epochGate env s eps = Inr (?s1, [LastPayoutWrite now])"
    and bal: "S + appMinBalance env \<le> appBalance env"
    and mx: "maxAllowedStake env = Inr maxStake"
    and tok: "tokenRewardForPool env ?s1 = Inr tokenReward"
    and small: "tokenReward = 0 \<longrightarrow> 1000000 < reward"
    and pv: "payValidator env (maxStake < vs_TotalAlgoStaked (validatorState env)) reward
               = Inr (algoLeft, pays)"
    and rest: "(if algoLeft = 0 \<and> tokenReward = 0 then Inr (?s1, [LastPayoutWrite now] @ pays)
         else
           rbind (payStakers now eps (TotalAlgoStaked ?s1) (Stakers ?s1)
                    \<lparr>algoRewardAvail = algoLeft, tokenRewardAvail = tokenReward,
                     tokenRewardPaidOut = 0, increasedStake = 0,
                     partialStakersTotalStake = 0\<rparr>) (\<lambda>(ledger, acc).
           rbind (u64_add (TotalAlgoStaked ?s1) (increasedStake acc)) (\<lambda>total.
             Inr (?s1\<lparr>Stakers := ledger, TotalAlgoStaked := total\<rparr>,
                  [LastPayoutWrite now] @ pays @
                  [StakeUpdatedViaRewardsCall (poolKey env ?s1) (increasedStake acc)
                     (tokenRewardPaidOut acc)])))) = Inr (s', effs)"
    unfolding epochBalanceUpdate_def now_def eps_def S_def reward_def
    by (auto simp: Inr_iffs epochGate_def split: option.splits)
  have "tokenRewardForPool env ?s1 = tokenRewardForPool env s"
    by (simp add: tokenRewardForPool_def cong: if_cong)
  with tok have tok': "tokenRewardForPool env s = Inr tokenReward"
    by simp
  from gate have early: "\<forall>t. LastPayout s = Some t \<longrightarrow> t + eps \<le> now"
    by (auto simp: epochGate_def Inr_iffs now_def split: option.splits)
  have pays_are_payments: "payments pays = pays"
    using pv payValidator_Inr[of env reward algoLeft pays]
    by (cases "maxStake < vs_TotalAlgoStaked (validatorState env)")
       (auto simp: payValidator_capped)
  let ?ca = "spec_creditsOf (paidInFull now eps) S eps now (Stakers s) algoLeft"
  let ?ct = "spec_creditsOf (paidInFull now eps) S eps now (Stakers s) tokenReward"
  let ?acc0 = "\<lparr>algoRewardAvail = algoLeft, tokenRewardAvail = tokenReward,
              tokenRewardPaidOut = 0, increasedStake = 0, partialStakersTotalStake = 0\<rparr>"
  have fin: "s' = s\<lparr>LastPayout := Some now, Stakers := creditAll (Stakers s) ?ca ?ct,
                    TotalAlgoStaked := S + sum_list ?ca\<rparr>
             \<and> payments effs = pays
             \<and> sum_list (spec_partialCredits S eps now (Stakers s) algoLeft)
               + spec_residual S eps now (Stakers s) algoLeft = algoLeft
             \<and> sum_list (spec_partialCredits S eps now (Stakers s) tokenReward)
               + spec_residual S eps now (Stakers s) tokenReward = tokenReward
             \<and> effs = LastPayoutWrite now # pays @
               (if algoLeft = 0 \<and> tokenReward = 0 then []
                else [StakeUpdatedViaRewardsCall (poolKey env s) (sum_list ?ca) (sum_list ?ct)])
             \<and> (algoLeft = 0 \<and> tokenReward = 0
                \<or> (\<exists>acc. payStakers now eps S (Stakers s) ?acc0 = Inr (Stakers s', acc)
                          \<and> algoRewardAvail acc = spec_residual S eps now (Stakers s) algoLeft
                          \<and> tokenRewardAvail acc = spec_residual S eps now (Stakers s) tokenReward
                          \<and> partialStakersTotalStake acc = spec_partialTotal now eps (Stakers s)))"
  proof (cases "algoLeft = 0 \<and> tokenReward = 0")
    case True
    with rest have "s' = ?s1" "effs = LastPayoutWrite now # pays" by simp_all
    with True pays_are_payments show ?thesis
      by (simp add: spec_creditsOf_no_reward creditAll_nothing S_def
            spec_partialCredits_no_reward spec_residual_no_reward)
  next
    case False
    with rest obtain ledger acc where
      ps: "payStakers now eps S (Stakers s) ?acc0 = Inr (ledger, acc)"
      and s': "s' = ?s1\<lparr>Stakers := ledger, TotalAlgoStaked := S + increasedStake acc\<rparr>"
      and effs: "effs = LastPayoutWrite now # pays @
                   [StakeUpdatedViaRewardsCall (poolKey env ?s1) (increasedStake acc)
                     (tokenRewardPaidOut acc)]"
      by (auto simp: Inr_iffs S_def)
    note r = payStakers_refines[OF ps]
    from s' have led: "Stakers s' = ledger" by simp
    have key: "poolKey env ?s1 = poolKey env s" by (simp add: poolKey_def)
    from r ps led have "\<exists>acc. payStakers now eps S (Stakers s) ?acc0 = Inr (Stakers s', acc)
                          \<and> algoRewardAvail acc = spec_residual S eps now (Stakers s) algoLeft
                          \<and> tokenRewardAvail acc = spec_residual S eps now (Stakers s) tokenReward
                          \<and> partialStakersTotalStake acc = spec_partialTotal now eps (Stakers s)"
      by (intro exI[of _ acc]) simp
    with r s' effs pays_are_payments False key show ?thesis
      by (simp add: payments_append)
  qed
  with mx tok' pv bal small early show ?thesis by blast
qed




section \<open>Arithmetic of the allocation\<close>

lemma fullCredit_sum_upper:
  assumes "0 < E"
  shows "sum_list (map (spec_fullCredit full E R) ledger) * E
           \<le> R * sum_list (map Balance (filter full ledger))"
proof (induction ledger)
  case Nil
  then show ?case by simp
next
  case (Cons s rest)
  show ?case
  proof (cases "full s")
    case True
    have "spec_fullCredit full E R s * E \<le> R * Balance s"
      using assms True by (simp add: spec_fullCredit_def)
    from add_mono[OF this Cons.IH] True show ?thesis
      by (simp add: algebra_simps)
  next
    case False
    with Cons.IH show ?thesis by (simp add: spec_fullCredit_def)
  qed
qed

lemma fullCredit_sum_lower:
  assumes "0 < E"
  shows "R * sum_list (map Balance (filter full ledger))
           \<le> (sum_list (map (spec_fullCredit full E R) ledger) + length (filter full ledger)) * E"
proof (induction ledger)
  case Nil
  then show ?case by simp
next
  case (Cons s rest)
  show ?case
  proof (cases "full s")
    case True
    have "R * Balance s < (R * Balance s div E + 1) * E"
      using assms dividend_less_div_times[of E "R * Balance s"]
      by (simp add: algebra_simps)
    then have "R * Balance s \<le> (spec_fullCredit full E R s + 1) * E"
      using True assms by (simp add: spec_fullCredit_def)
    from add_mono[OF this Cons.IH] True show ?thesis
      by (simp add: algebra_simps)
  next
    case False
    with Cons.IH show ?thesis by (simp add: spec_fullCredit_def)
  qed
qed

lemma nonEmpty_split:
  "nonEmpty s \<longleftrightarrow> countsAsPartial now eps s \<or> fullEpoch now eps s"
  by (auto simp: nonEmpty_def countsAsPartial_def fullEpoch_def)

lemma not_both: "countsAsPartial now eps s \<Longrightarrow> \<not> fullEpoch now eps s"
  by (auto simp: countsAsPartial_def fullEpoch_def)

lemma ledger_split:
  "sum_list (map Balance (filter nonEmpty ledger))
     = spec_partialTotal now eps ledger
       + sum_list (map Balance (filter (fullEpoch now eps) ledger))"
proof (induction ledger)
  case Nil
  then show ?case by (simp add: spec_partialTotal_def)
next
  case (Cons s rest)
  then show ?case
    using nonEmpty_split[of s now eps] not_both[of now eps s]
    by (auto simp: spec_partialTotal_Cons)
qed

lemma full_count_le: "length (filter (fullEpoch now eps) ledger) \<le> length (filter nonEmpty ledger)"
proof (induction ledger)
  case Nil
  then show ?case by simp
next
  case (Cons s rest)
  then show ?case using nonEmpty_split[of s now eps] by auto
qed

lemma paidInFull_fullEpoch: "paidInFull now eps s \<Longrightarrow> fullEpoch now eps s"
  by (auto simp: paidInFull_def fullEpoch_def)

lemma paidInFull_eq: "0 < eps \<Longrightarrow> paidInFull now eps = fullEpoch now eps"
  by (rule ext) (auto simp: paidInFull_def fullEpoch_def)

lemma paid_stake_le:
  "sum_list (map Balance (filter (paidInFull now eps) ledger))
     \<le> sum_list (map Balance (filter (fullEpoch now eps) ledger))"
proof (induction ledger)
  case Nil
  then show ?case by simp
next
  case (Cons s rest)
  then show ?case using paidInFull_fullEpoch[of now eps s] by auto
qed

lemma spec_residual_le: "spec_residual S eps now ledger A \<le> A"
proof (induction ledger arbitrary: A)
  case Nil
  then show ?case by simp
next
  case (Cons s rest)
  have "spec_residual S eps now rest (A - spec_partialCredit S eps now s A)
          \<le> A - spec_partialCredit S eps now s A" by (rule Cons.IH)
  then show ?case by simp
qed

lemma timePercent_le: "t < eps \<Longrightarrow> (t * 1000) div eps \<le> (1000::nat)"
proof -
  assume "t < eps"
  then have "t * 1000 \<le> 1000 * eps" by simp
  then have "(t * 1000) div eps \<le> (1000 * eps) div eps" by (rule div_le_mono)
  with \<open>t < eps\<close> show ?thesis by simp
qed

lemma spec_partialCredit_bound:
  "spec_partialCredit S eps now s A * S
     \<le> (if countsAsPartial now eps s then Balance s else 0) * A"
proof (cases "partialEpoch now eps s")
  case True
  then have cap: "countsAsPartial now eps s"
    by (simp add: partialEpoch_def countsAsPartial_def)
  define tp where "tp = ((now - EntryTime s) * 1000) div eps"
  from True have "tp \<le> 1000"
    unfolding tp_def by (intro timePercent_le) (simp add: partialEpoch_def)
  define c where "c = (Balance s * A * tp) div (S * 1000)"
  have "c * (S * 1000) \<le> Balance s * A * tp" by (simp add: c_def)
  also have "\<dots> \<le> Balance s * A * 1000" using \<open>tp \<le> 1000\<close> by simp
  finally have "c * S * 1000 \<le> Balance s * A * 1000" by (simp add: mult.assoc)
  then have "c * S \<le> Balance s * A" by simp
  with True cap show ?thesis
    by (simp add: spec_partialCredit_def c_def tp_def)
next
  case False
  then show ?thesis by (simp add: spec_partialCredit_def)
qed

lemma residual_share:
  "(A - spec_residual S eps now ledger A) * S \<le> A * spec_partialTotal now eps ledger"
proof (induction ledger arbitrary: A)
  case Nil
  then show ?case by simp
next
  case (Cons s rest)
  define c where "c = spec_partialCredit S eps now s A"
  define b where "b = (if countsAsPartial now eps s then Balance s else 0)"
  define R where "R = spec_residual S eps now rest (A - c)"
  have R_le: "R \<le> A - c" unfolding R_def by (rule spec_residual_le)
  have ih: "(A - c - R) * S \<le> (A - c) * spec_partialTotal now eps rest"
    unfolding R_def by (rule Cons.IH)
  also have "\<dots> \<le> A * spec_partialTotal now eps rest" by (simp add: mult_le_mono1)
  finally have tail: "(A - c - R) * S \<le> A * spec_partialTotal now eps rest" .
  have head: "c * S \<le> b * A"
    unfolding c_def b_def by (rule spec_partialCredit_bound)
  have "A - R \<le> c + (A - c - R)" by simp
  then have "(A - R) * S \<le> (c + (A - c - R)) * S" by (rule mult_le_mono1)
  also have "\<dots> = c * S + (A - c - R) * S" by (simp add: add_mult_distrib)
  also have "\<dots> \<le> b * A + A * spec_partialTotal now eps rest"
    using head tail by (rule add_mono)
  also have "\<dots> = A * spec_partialTotal now eps (s # rest)"
    by (simp add: spec_partialTotal_Cons b_def algebra_simps)
  finally show ?case by (simp add: R_def c_def)
qed

lemma residual_share_full:
  assumes "P \<le> S" and "(A - R) * S \<le> A * P" and "R \<le> (A::nat)"
  shows "A * (S - P) \<le> R * S"
proof -
  have "A * S = (A - R) * S + R * S"
    using \<open>R \<le> A\<close> by (simp add: add_mult_distrib[symmetric])
  then have "A * S \<le> A * P + R * S" using assms(2) by simp
  moreover have "A * (S - P) = A * S - A * P" by (simp add: diff_mult_distrib2)
  ultimately show ?thesis by simp
qed

lemma spec_partialCredits_nth:
  "i < length ledger \<Longrightarrow>
   spec_partialCredits S eps now ledger A ! i
     = spec_partialCredit S eps now (ledger ! i) (spec_residual S eps now (take i ledger) A)"
proof (induction ledger arbitrary: A i)
  case Nil
  then show ?case by simp
next
  case (Cons s rest)
  then show ?case by (cases i) simp_all
qed

lemma creditAll_nth:
  "i < length ledger \<Longrightarrow> length algos = length ledger \<Longrightarrow> length tokens = length ledger \<Longrightarrow>
   creditAll ledger algos tokens ! i = credit (ledger ! i) (algos ! i) (tokens ! i)"
proof (induction ledger arbitrary: algos tokens i)
  case Nil
  then show ?case by simp
next
  case (Cons s rest)
  then obtain a as t ts where "algos = a # as" "tokens = t # ts"
    by (metis length_Suc_conv)
  with Cons show ?case by (cases i) simp_all
qed

lemma spec_creditsOf_nth:
  "i < length ledger \<Longrightarrow>
   spec_creditsOf full S eps now ledger A ! i
     = spec_partialCredit S eps now (ledger ! i) (spec_residual S eps now (take i ledger) A)
       + spec_fullCredit full (S - spec_partialTotal now eps ledger)
           (spec_residual S eps now ledger A) (ledger ! i)"
  by (simp add: spec_creditsOf_def spec_partialCredits_nth)

lemma algoCredited_creditAll:
  "length algos = length ledger \<Longrightarrow> length tokens = length ledger \<Longrightarrow>
   algoCredited ledger (creditAll ledger algos tokens) = sum_list algos"
proof (induction ledger arbitrary: algos tokens)
  case Nil
  then show ?case by (simp add: algoCredited_def)
next
  case (Cons s rest)
  then obtain a as t ts where eq: "algos = a # as" "tokens = t # ts"
    by (metis length_Suc_conv)
  with Cons.prems have "algoCredited rest (creditAll rest as ts) = sum_list as"
    by (intro Cons.IH) simp_all
  with eq show ?case by (simp add: algoCredited_def credit_def)
qed

section \<open>Bounds on the credited sums\<close>

lemma sum_spec_creditsOf:
  "sum_list (spec_creditsOf full S eps now ledger A)
     = sum_list (spec_partialCredits S eps now ledger A)
       + sum_list (map (spec_fullCredit full (S - spec_partialTotal now eps ledger)
                          (spec_residual S eps now ledger A)) ledger)"
  by (simp add: spec_creditsOf_def sum_list_map2_add)

lemma credits_le_reward:
  assumes I1: "sum_list (map Balance (filter nonEmpty ledger)) = S"
    and cons: "sum_list (spec_partialCredits S eps now ledger A)
                 + spec_residual S eps now ledger A = A"
  shows "sum_list (spec_creditsOf (paidInFull now eps) S eps now ledger A) \<le> A"
proof -
  define P where "P = spec_partialTotal now eps ledger"
  define F where "F = sum_list (map Balance (filter (fullEpoch now eps) ledger))"
  define R where "R = spec_residual S eps now ledger A"
  define E where "E = S - P"
  from I1 have split: "S = P + F"
    unfolding P_def F_def using ledger_split[of ledger now eps] by simp
  then have E: "E = F" by (simp add: E_def)
  have "sum_list (map (spec_fullCredit (paidInFull now eps) E R) ledger) \<le> R"
  proof (cases "0 < E")
    case True
    have "sum_list (map (spec_fullCredit (paidInFull now eps) E R) ledger) * E
            \<le> R * sum_list (map Balance (filter (paidInFull now eps) ledger))"
      by (rule fullCredit_sum_upper[OF True])
    also have "\<dots> \<le> R * F"
      unfolding F_def by (intro mult_le_mono2 paid_stake_le)
    finally have "sum_list (map (spec_fullCredit (paidInFull now eps) E R) ledger) * E \<le> R * E"
      by (simp add: E)
    with True show ?thesis by simp
  next
    case False
    then show ?thesis by (simp add: spec_fullCredit_no_stake)
  qed
  with cons show ?thesis
    unfolding sum_spec_creditsOf P_def[symmetric] E_def[symmetric] R_def[symmetric]
    by linarith
qed

lemma credits_ge_reward:
  assumes I1: "sum_list (map Balance (filter nonEmpty ledger)) = S"
    and cons: "sum_list (spec_partialCredits S eps now ledger A)
                 + spec_residual S eps now ledger A = A"
    and pos: "0 < eps"
    and full: "spec_partialTotal now eps ledger < S"
  shows "A \<le> sum_list (spec_creditsOf (paidInFull now eps) S eps now ledger A)
              + length (filter (fullEpoch now eps) ledger)"
proof -
  define P where "P = spec_partialTotal now eps ledger"
  define F where "F = sum_list (map Balance (filter (fullEpoch now eps) ledger))"
  define R where "R = spec_residual S eps now ledger A"
  define E where "E = S - P"
  from I1 have split: "S = P + F"
    unfolding P_def F_def using ledger_split[of ledger now eps] by simp
  then have E: "E = F" by (simp add: E_def)
  from full have "0 < E" by (simp add: E_def P_def)
  have "R * F \<le> (sum_list (map (spec_fullCredit (fullEpoch now eps) E R) ledger)
                   + length (filter (fullEpoch now eps) ledger)) * E"
    unfolding F_def by (rule fullCredit_sum_lower[OF \<open>0 < E\<close>])
  with \<open>0 < E\<close> have "R \<le> sum_list (map (spec_fullCredit (fullEpoch now eps) E R) ledger)
                   + length (filter (fullEpoch now eps) ledger)"
    by (simp add: E[symmetric])
  with cons show ?thesis
    unfolding sum_spec_creditsOf paidInFull_eq[OF pos]
      P_def[symmetric] E_def[symmetric] R_def[symmetric]
    by linarith
qed



lemma maxAllowedStake_Inr:
  "maxAllowedStake env = Inr m \<Longrightarrow>
   m = (getCurrentOnlineStake * MAX_VALIDATOR_PCT_OF_ONLINE env) div 1000"
  by (simp add: maxAllowedStake_def Inr_iffs)

lemma paidTo_payments: "paidTo a (payments effs) = paidTo a effs"
  by (induction effs rule: payments.induct) simp_all

lemma full_stake_positive:
  "x \<in> set ledger \<Longrightarrow> full x \<Longrightarrow> 0 < Balance x \<Longrightarrow>
   0 < sum_list (map Balance (filter full ledger))"
  by (induction ledger) auto

lemma full_stake_member:
  "i < length ledger \<Longrightarrow> full (ledger ! i) \<Longrightarrow>
   Balance (ledger ! i) \<le> sum_list (map Balance (filter full ledger))"
proof (induction ledger arbitrary: i)
  case Nil
  then show ?case by simp
next
  case (Cons s rest)
  show ?case
  proof (cases i)
    case 0
    with Cons.prems show ?thesis by simp
  next
    case (Suc k)
    with Cons.prems have "Balance (rest ! k) \<le> sum_list (map Balance (filter full rest))"
      by (intro Cons.IH) simp_all
    with Suc show ?thesis by simp
  qed
qed

lemma spec_partialCredit_empty_balance:
  "Balance s = 0 \<Longrightarrow> spec_partialCredit S eps now s A = 0"
  by (simp add: spec_partialCredit_def)

text \<open>One reward stream: a partial slot is never credited more than a full slot of equal balance.\<close>

lemma partial_le_full:
  assumes I1: "sum_list (map Balance (filter nonEmpty ledger)) = S"
    and i: "i < length ledger" and j: "j < length ledger"
    and full: "fullEpoch now eps (ledger ! i)"
    and part: "partialEpoch now eps (ledger ! j)"
    and eq: "Balance (ledger ! i) = Balance (ledger ! j)"
  shows "spec_creditsOf (paidInFull now eps) S eps now ledger A ! j
           \<le> spec_creditsOf (paidInFull now eps) S eps now ledger A ! i"
proof -
  define P where "P = spec_partialTotal now eps ledger"
  define F where "F = sum_list (map Balance (filter (fullEpoch now eps) ledger))"
  define R where "R = spec_residual S eps now ledger A"
  define E where "E = S - P"
  define b where "b = Balance (ledger ! j)"
  define Aj where "Aj = spec_residual S eps now (take j ledger) A"
  define c where "c = spec_partialCredit S eps now (ledger ! j) Aj"
  from part have pos: "0 < eps" by (auto simp: partialEpoch_def)
  from I1 have split: "S = P + F"
    unfolding P_def F_def using ledger_split[of ledger now eps] by simp
  then have E: "E = F" and PS: "P \<le> S" by (simp_all add: E_def)
  from part have notfull: "\<not> paidInFull now eps (ledger ! j)"
    by (auto simp: partialEpoch_def paidInFull_def)
  from full pos have paid: "paidInFull now eps (ledger ! i)"
    by (simp add: paidInFull_eq)
  have cj: "spec_creditsOf (paidInFull now eps) S eps now ledger A ! j = c"
    using j notfull
    by (simp add: spec_creditsOf_nth spec_fullCredit_def c_def Aj_def)
  have ci: "spec_fullCredit (paidInFull now eps) E R (ledger ! i)
              \<le> spec_creditsOf (paidInFull now eps) S eps now ledger A ! i"
    using i by (simp add: spec_creditsOf_nth E_def P_def R_def)
  have "c \<le> spec_fullCredit (paidInFull now eps) E R (ledger ! i)"
  proof (cases "b = 0")
    case True
    then show ?thesis
      by (simp add: c_def b_def spec_partialCredit_empty_balance)
  next
    case False
    from full_stake_member[of i ledger "fullEpoch now eps", OF i full] eq
    have "b \<le> F" by (simp add: b_def F_def)
    with False have "0 < E" by (simp add: E)
    with PS have "0 < S" by (simp add: E_def)
    from part have cap: "countsAsPartial now eps (ledger ! j)"
      by (simp add: partialEpoch_def countsAsPartial_def)
    have "c * S \<le> b * Aj"
      using spec_partialCredit_bound[of S eps now "ledger ! j" Aj] cap
      by (simp add: c_def b_def)
    also have "\<dots> \<le> b * A"
      unfolding Aj_def by (intro mult_le_mono2 spec_residual_le)
    finally have cS: "c * S \<le> b * A" .
    have AE: "A * E \<le> R * S"
      unfolding E_def
      by (rule residual_share_full[OF PS])
         (simp_all add: R_def P_def residual_share spec_residual_le)
    have "(c * E) * S = (c * S) * E" by (simp add: mult.assoc mult.commute)
    also have "\<dots> \<le> (b * A) * E" using cS by (rule mult_le_mono1)
    also have "\<dots> = b * (A * E)" by (simp add: mult.assoc)
    also have "\<dots> \<le> b * (R * S)" using AE by (rule mult_le_mono2)
    also have "\<dots> = (R * b) * S" by (simp add: mult.assoc mult.commute)
    finally have "c * E \<le> R * b" using \<open>0 < S\<close> by simp
    with \<open>0 < E\<close> have "c \<le> (R * b) div E"
      by (simp add: less_eq_div_iff_mult_less_eq)
    with \<open>0 < E\<close> paid eq show ?thesis
      by (simp add: spec_fullCredit_def b_def)
  qed
  with cj ci show ?thesis by simp
qed

section \<open>When the payout goes through\<close>




















section \<open>LastPayout along sequences of calls\<close>













section \<open>removeStake\<close>







section \<open>claimTokens\<close>




section \<open>addStake and the one-slot-per-staker invariant\<close>

text \<open>
  Claim C8.  The claim is that a pool \<open>addStake\<close> for a staker who already has a ledger
  slot never creates a second slot, also when an empty slot precedes the staker's slot.
  The scan of \<open>addStake\<close> leaves its loop at the first empty slot, before it reaches the
  staker: in the pool below, account 7 holds slot 1 and slot 0 is empty, and after
  \<open>addStake\<close> account 7 holds both slots and \<open>NumStakers\<close> counts it twice.
\<close>

theorem addStake_second_slot:
  "addStake ex_registry_env ex_pool ex_payment 7 =
     Inr (ex_pool\<lparr>Stakers :=
            [\<lparr>Account = 7, Balance = 1000, TotalRewarded = 0, RewardTokenBalance = 0,
              EntryTime = 100896\<rparr>,
             \<lparr>Account = 7, Balance = 3000, TotalRewarded = 0, RewardTokenBalance = 0,
              EntryTime = 10\<rparr>],
            NumStakers := 2, TotalAlgoStaked := 4000\<rparr>, 100896)"
  by (simp add: addStake_def ex_defs u64_defs getEntryTime_def
        ALGORAND_STAKING_BLOCK_DELAY_def AVG_BLOCK_TIME_SECS_def)

text \<open>
  The pool above arises from a pool with empty slots by three calls: account 5 stakes and
  takes slot 0, account 7 stakes and takes slot 1, account 5 removes all its stake.  The
  next stake of account 7 then gives it both slots.
\<close>

lemma second_slot_from_fresh_pool:
  "map Account (Stakers (foldl applyCall fresh_pool
     [CallAddStake ex_registry_env ex_payment 5,
      CallAddStake ex_registry_env ex_payment 7,
      CallRemoveStake (ex_env\<lparr>txnSender := 5\<rparr>) 0])) = [0, 7]
   \<and> map Account (Stakers (foldl applyCall fresh_pool
     [CallAddStake ex_registry_env ex_payment 5,
      CallAddStake ex_registry_env ex_payment 7,
      CallRemoveStake (ex_env\<lparr>txnSender := 5\<rparr>) 0,
      CallAddStake ex_registry_env ex_payment 7])) = [7, 7]"
  by (simp add: fresh_pool_def addStake_def removeStake_def ex_defs u64_defs getEntryTime_def
        ALGORAND_STAKING_BLOCK_DELAY_def AVG_BLOCK_TIME_SECS_def poolKey_def)

section \<open>addValidator\<close>

lemma validateConfig_iff:
  "validateConfig k config = (if withinBounds 100000 k config then Inr () else Inl InvalidConfig)"
  by (simp add: validateConfig_def withinBounds_def assert_def reg_defs)

text \<open>
  Claim C9, as amended.  \<open>addValidator\<close> succeeds and returns \<open>numValidators + 1\<close>, storing
  the new record under that id, for every configuration within the bounds of the code,
  where the commission lies in \<open>[10000, 100000]\<close>, with non-zero owner and manager (and a
  validator counter below \<open>2^64 - 1\<close>); it fails when the owner or the manager is the zero
  address and when a bound is violated.
\<close>

theorem addValidator_bounds:
  "(owner \<noteq> zeroAddress \<and> manager \<noteq> zeroAddress \<and> withinBounds 100000 k config
      \<and> numValidators r < u64_max
      \<longrightarrow> (\<exists>r' info. addValidator k r owner manager nfdAppID config = Inr (r', numValidators r + 1)
                \<and> numValidators r' = numValidators r + 1
                \<and> ValidatorList r' (numValidators r + 1) = Some info
                \<and> ID info = numValidators r + 1 \<and> Owner info = owner \<and> Manager info = manager
                \<and> Config info = config))
   \<and> (owner = zeroAddress \<or> manager = zeroAddress
      \<longrightarrow> addValidator k r owner manager nfdAppID config = Inl AssertFailed)
   \<and> (owner \<noteq> zeroAddress \<and> manager \<noteq> zeroAddress \<and> \<not> withinBounds 100000 k config
      \<longrightarrow> addValidator k r owner manager nfdAppID config = Inl InvalidConfig)"
  by (auto simp: addValidator_def validateConfig_iff assert_def u64_add_def)

text \<open>
  A configuration with 5% commission is accepted as validator 2; the zero address as owner
  is refused; 50% commission is refused.
\<close>

theorem addValidator_bounds_witness:
  "map_sum id snd (addValidator ex_constants ex_registry 5 6 0 ex_config) = Inr 2
   \<and> addValidator ex_constants ex_registry 0 6 0 ex_config = Inl AssertFailed
   \<and> addValidator ex_constants ex_registry 5 6 0 (ex_config\<lparr>reg_PercentToValidator := 500000\<rparr>)
       = Inl InvalidConfig"
proof -
  have ok: "(5::nat) \<noteq> zeroAddress \<and> (6::nat) \<noteq> zeroAddress
      \<and> withinBounds 100000 ex_constants ex_config \<and> numValidators ex_registry < u64_max"
    by (simp add: withinBounds_def reg_defs u64_defs)
  have bad: "\<not> withinBounds 100000 ex_constants (ex_config\<lparr>reg_PercentToValidator := 500000\<rparr>)"
    by (simp add: withinBounds_def reg_defs)
  from addValidator_bounds[of 5 6 ex_constants ex_config ex_registry 0] ok
  obtain r' where "addValidator ex_constants ex_registry 5 6 0 ex_config
                     = Inr (r', numValidators ex_registry + 1)"
    by blast
  then have "map_sum id snd (addValidator ex_constants ex_registry 5 6 0 ex_config) = Inr 2"
    by (simp add: ex_registry_def)
  moreover from addValidator_bounds[of 0 6 ex_constants ex_config ex_registry 0]
  have "addValidator ex_constants ex_registry 0 6 0 ex_config = Inl AssertFailed"
    by (simp add: zeroAddress_def)
  moreover from addValidator_bounds[of 5 6 ex_constants
                  "ex_config\<lparr>reg_PercentToValidator := 500000\<rparr>" ex_registry 0] ok bad
  have "addValidator ex_constants ex_registry 5 6 0 (ex_config\<lparr>reg_PercentToValidator := 500000\<rparr>)
          = Inl InvalidConfig"
    by blast
  ultimately show ?thesis by simp
qed

text \<open>
  Claim C9, as stated, fails: a commission of 500000 (50%) lies in the interval
  \<open>[10000, 1_000_000]\<close> of the claim, every other field is within its bounds and owner and
  manager are not zero, and \<open>addValidator\<close> refuses the configuration.
\<close>

theorem addValidator_rejects_half_commission:
  "withinBounds 1000000 ex_constants (ex_config\<lparr>reg_PercentToValidator := 500000\<rparr>)
   \<and> (5::nat) \<noteq> zeroAddress \<and> (6::nat) \<noteq> zeroAddress
   \<and> addValidator ex_constants ex_registry 5 6 0 (ex_config\<lparr>reg_PercentToValidator := 500000\<rparr>)
       = Inl InvalidConfig"
  by (simp add: addValidator_def validateConfig_def withinBounds_def assert_def reg_defs
        zeroAddress_def)

section \<open>findPoolForStaker\<close>

lemma emptyPoolInfo_total: "pool_TotalAlgoStaked emptyPoolInfo = 0"
  by (simp add: emptyPoolInfo_def)

lemma walkPools_unused_full:
  "maxPerPool \<le> amountToStake \<Longrightarrow> amountToStake \<le> u64_max \<Longrightarrow>
   walkPools validatorID amountToStake maxPerPool (replicate n emptyPoolInfo) i =
     Inr \<lparr>key_ID = validatorID, key_PoolID = 0, key_PoolAppID = 0\<rparr>"
  by (induction n arbitrary: i) (simp_all add: emptyPoolInfo_def u64_add_def)

lemma walkPools_unused_fits:
  "amountToStake < maxPerPool \<Longrightarrow> amountToStake \<le> u64_max \<Longrightarrow> 0 < n \<Longrightarrow>
   walkPools validatorID amountToStake maxPerPool (replicate n emptyPoolInfo) i =
     Inr \<lparr>key_ID = validatorID, key_PoolID = i + 1, key_PoolAppID = 0\<rparr>"
  by (cases n) (simp_all add: emptyPoolInfo_def u64_add_def)

text \<open>
  Claim C2.  The claim is that a pool is chosen when \<open>totalAlgoStaked + amount <=
  maxAlgoPerPool\<close> and that only \<open>pools[0..numPools)\<close> are walked.  The code compares with
  \<open><\<close> and walks the whole \<open>Pools\<close> array.  Validator 1 has one pool, application 77, and
  allows 1000000000 per pool.  When the pool is empty, a new staker's stake of exactly
  1000000000 fits by the claim, and the code returns the key with pool id 0.  When the
  pool holds 999000000, a stake of 2000000 fits nowhere by the claim, and the code returns
  pool id 2 with application 0, a pool that was never created.
\<close>

theorem findPoolForStaker_divergence:
  "StakerPoolSet ex_registry 7 = None
   \<and> map_option (\<lambda>info. NumPools (State info)) (ValidatorList ex_registry 1) = Some 1
   \<and> map_option (\<lambda>info. pool_TotalAlgoStaked (Pools info ! 0) + 1000000000
                          \<le> MaxAlgoPerPool (Config info)) (ValidatorList ex_registry 1) = Some True
   \<and> findPoolForStaker ex_registry 1 7 1000000000 =
       Inr \<lparr>key_ID = 1, key_PoolID = 0, key_PoolAppID = 0\<rparr>
   \<and> map_option (\<lambda>info. NumPools (State info)) (ValidatorList ex_registry_full 1) = Some 1
   \<and> findPoolForStaker ex_registry_full 1 7 2000000 =
       Inr \<lparr>key_ID = 1, key_PoolID = 2, key_PoolAppID = 0\<rparr>"
  by (simp add: findPoolForStaker_def ex_registry_full_def ex_registry_def ex_config_def
        emptyPoolInfo_total walkPools_unused_full walkPools_unused_fits u64_defs)

section \<open>The claims about epochBalanceUpdate\<close>

lemmas spec_defs = spec_credits_def spec_creditsOf_def spec_partialCredit_def spec_fullCredit_def
  spec_partialTotal_def partialEpoch_def fullEpoch_def countsAsPartial_def paidInFull_def
  credit_def nonEmpty_def ledgerConsistent_def algoCredited_def






lemma epoch0_run:
  "epochBalanceUpdate epoch0_env epoch0_pool =
     Inr (epoch0_pool,
          [LastPayoutWrite 100000, Payment 42 5000000 ''validator reward'',
           StakeUpdatedViaRewardsCall \<lparr>key_ID = 1, key_PoolID = 1, key_PoolAppID = 55\<rparr> 0 0])"
  by (simp add: payout_defs epoch_defs u64_defs)






subsection \<open>The two passes\<close>




subsection \<open>The protocol cap and the commission\<close>




subsection \<open>The epoch gate\<close>




subsection \<open>Partial and full stakers of equal balance\<close>

text \<open>
  Claim C4.  In a pool whose total equals the sum of its ledger balances, take two slots
  of equal balance in one successful \<open>epochBalanceUpdate\<close>, one with
  \<open>timeInPool >= epochSecs\<close> and one with \<open>timeInPool < epochSecs\<close>.  The algo credited to
  the first is never less than the algo credited to the second, and the same holds for
  the token credit.
\<close>

theorem full_epoch_not_less:
  assumes run: "epochBalanceUpdate env s = Inr (s', effs)"
    and I1: "TotalAlgoStaked s = sum_list (map Balance (filter nonEmpty (Stakers s)))"
    and i: "i < length (Stakers s)" and j: "j < length (Stakers s)"
    and full: "fullEpoch (latestTimestamp env) (PayoutEveryXMins (validatorConfig env) * 60)
                 (Stakers s ! i)"
    and part: "partialEpoch (latestTimestamp env) (PayoutEveryXMins (validatorConfig env) * 60)
                 (Stakers s ! j)"
    and eq: "Balance (Stakers s ! i) = Balance (Stakers s ! j)"
  shows "Balance (Stakers s' ! j) - Balance (Stakers s ! j)
           \<le> Balance (Stakers s' ! i) - Balance (Stakers s ! i)
         \<and> RewardTokenBalance (Stakers s' ! j) - RewardTokenBalance (Stakers s ! j)
           \<le> RewardTokenBalance (Stakers s' ! i) - RewardTokenBalance (Stakers s ! i)"
proof -
  define now where "now = latestTimestamp env"
  define eps where "eps = PayoutEveryXMins (validatorConfig env) * 60"
  define S where "S = TotalAlgoStaked s"
  from epochBalanceUpdate_Inr[OF run] obtain tokenReward algoLeft where
    s': "Stakers s' = creditAll (Stakers s)
                      (spec_creditsOf (paidInFull now eps) S eps now (Stakers s) algoLeft)
                      (spec_creditsOf (paidInFull now eps) S eps now (Stakers s) tokenReward)"
    unfolding now_def eps_def S_def by auto
  have le: "spec_creditsOf (paidInFull now eps) S eps now (Stakers s) A ! j
           \<le> spec_creditsOf (paidInFull now eps) S eps now (Stakers s) A ! i" for A
    using I1[symmetric] i j full part eq
    unfolding now_def eps_def S_def by (rule partial_le_full)
  from i j le[of algoLeft] le[of tokenReward] show ?thesis
    unfolding s' by (simp add: creditAll_nth credit_def)
qed

text \<open>
  Accounts 7 and 8 hold 1000 Algo each; account 8, half an epoch in the pool, is credited
  23.75 Algo and account 7 is credited 71.25 Algo.
\<close>

theorem full_epoch_not_less_witness:
  "Balance (Stakers payout_pool_after ! 1) - Balance (Stakers payout_pool ! 1)
     \<le> Balance (Stakers payout_pool_after ! 0) - Balance (Stakers payout_pool ! 0)
   \<and> Balance (Stakers payout_pool_after ! 1) - Balance (Stakers payout_pool ! 1) = 23750000
   \<and> Balance (Stakers payout_pool_after ! 0) - Balance (Stakers payout_pool ! 0) = 71250000"
proof -
  have I1: "TotalAlgoStaked payout_pool
              = sum_list (map Balance (filter nonEmpty (Stakers payout_pool)))"
    by (simp add: payout_defs nonEmpty_def zeroAddress_def)
  have i: "0 < length (Stakers payout_pool)" and j: "1 < length (Stakers payout_pool)"
    by (simp_all add: payout_defs)
  have full: "fullEpoch (latestTimestamp payout_env)
                (PayoutEveryXMins (validatorConfig payout_env) * 60) (Stakers payout_pool ! 0)"
    by (simp add: payout_defs fullEpoch_def zeroAddress_def)
  have part: "partialEpoch (latestTimestamp payout_env)
                (PayoutEveryXMins (validatorConfig payout_env) * 60) (Stakers payout_pool ! 1)"
    by (simp add: payout_defs partialEpoch_def zeroAddress_def)
  have eq: "Balance (Stakers payout_pool ! 0) = Balance (Stakers payout_pool ! 1)"
    by (simp add: payout_defs)
  from full_epoch_not_less[OF payout_run I1 i j full part eq]
  have "Balance (Stakers payout_pool_after ! 1) - Balance (Stakers payout_pool ! 1)
     \<le> Balance (Stakers payout_pool_after ! 0) - Balance (Stakers payout_pool ! 0)"
    by blast
  then show ?thesis by (simp add: payout_defs)
qed

subsection \<open>Conservation of the reward\<close>

text \<open>
  Claim C3, as amended.  Take a successful \<open>epochBalanceUpdate\<close> below the protocol cap, on
  a pool whose \<open>TotalAlgoStaked\<close> is the sum of its ledger balances and whose \<open>NumStakers\<close>
  is the number of its non-empty slots.  The algo credited to the ledger balances plus the
  commission paid is at most the initial reward (balance minus \<open>TotalAlgoStaked\<close> minus
  minimum balance).  When the epoch is at least one minute and at least one staker with a
  positive balance was in the pool for the whole epoch, the sum falls short of the
  initial reward by at most the number of full-epoch stakers, which is at most
  \<open>NumStakers\<close>.  When no stake is left for the second pass
  (\<open>TotalAlgoStaked - partialTotal = 0\<close>), the sum falls short of the initial reward by
  exactly the reward that the first pass left over, which is credited to no one.
\<close>

theorem reward_conservation:
  assumes run: "epochBalanceUpdate env s = Inr (s', effs)"
    and notcap: "vs_TotalAlgoStaked (validatorState env)
                   \<le> (getCurrentOnlineStake * MAX_VALIDATOR_PCT_OF_ONLINE env) div 1000"
    and inv: "ledgerConsistent s"
  shows "paidTo (ValidatorCommissionAddress (validatorConfig env)) effs
           + algoCredited (Stakers s) (Stakers s')
           \<le> appBalance env - TotalAlgoStaked s - appMinBalance env
         \<and> (1 \<le> PayoutEveryXMins (validatorConfig env)
              \<and> (\<exists>x\<in>set (Stakers s).
                    fullEpoch (latestTimestamp env) (PayoutEveryXMins (validatorConfig env) * 60) x
                    \<and> 0 < Balance x)
              \<longrightarrow> appBalance env - TotalAlgoStaked s - appMinBalance env
                    \<le> paidTo (ValidatorCommissionAddress (validatorConfig env)) effs
                      + algoCredited (Stakers s) (Stakers s')
                      + length (filter (fullEpoch (latestTimestamp env)
                                  (PayoutEveryXMins (validatorConfig env) * 60)) (Stakers s))
                  \<and> length (filter (fullEpoch (latestTimestamp env)
                                  (PayoutEveryXMins (validatorConfig env) * 60)) (Stakers s))
                    \<le> NumStakers s)
         \<and> (TotalAlgoStaked s
               - spec_partialTotal (latestTimestamp env)
                   (PayoutEveryXMins (validatorConfig env) * 60) (Stakers s) = 0
              \<longrightarrow> paidTo (ValidatorCommissionAddress (validatorConfig env)) effs
                    + algoCredited (Stakers s) (Stakers s')
                    + spec_residual (TotalAlgoStaked s)
                        (PayoutEveryXMins (validatorConfig env) * 60) (latestTimestamp env)
                        (Stakers s)
                        (appBalance env - TotalAlgoStaked s - appMinBalance env
                           - paidTo (ValidatorCommissionAddress (validatorConfig env)) effs)
                    = appBalance env - TotalAlgoStaked s - appMinBalance env)"
proof -
  define now where "now = latestTimestamp env"
  define eps where "eps = PayoutEveryXMins (validatorConfig env) * 60"
  define S where "S = TotalAlgoStaked s"
  define reward where "reward = appBalance env - TotalAlgoStaked s - appMinBalance env"
  define pay where "pay = (reward * PercentToValidator (validatorConfig env)) div 1000000"
  define n where "n = length (filter (fullEpoch now eps) (Stakers s))"
  from epochBalanceUpdate_Inr[OF run] obtain m tokenReward algoLeft pays where
    mx: "maxAllowedStake env = Inr m"
    and pv: "payValidator env (m < vs_TotalAlgoStaked (validatorState env)) reward
               = Inr (algoLeft, pays)"
    and s': "Stakers s' = creditAll (Stakers s)
                      (spec_creditsOf (paidInFull now eps) S eps now (Stakers s) algoLeft)
                      (spec_creditsOf (paidInFull now eps) S eps now (Stakers s) tokenReward)"
    and pays: "payments effs = pays"
    and cons: "sum_list (spec_partialCredits S eps now (Stakers s) algoLeft)
               + spec_residual S eps now (Stakers s) algoLeft = algoLeft"
    unfolding now_def eps_def S_def reward_def by auto
  from maxAllowedStake_Inr[OF mx] notcap pv
  have pv': "payValidator env False reward = Inr (algoLeft, pays)"
    by (simp add: not_less[symmetric])
  note v = payValidator_Inr[OF pv', folded pay_def]
  from v have left: "algoLeft + pay = reward" by simp
  have paid: "paidTo (ValidatorCommissionAddress (validatorConfig env)) effs = pay"
    using v pays paidTo_payments[of "ValidatorCommissionAddress (validatorConfig env)" effs]
    by (auto split: if_splits)
  from inv have I1: "sum_list (map Balance (filter nonEmpty (Stakers s))) = S"
    and I2: "NumStakers s = length (filter nonEmpty (Stakers s))"
    by (simp_all add: ledgerConsistent_def S_def)
  have credited: "algoCredited (Stakers s) (Stakers s')
            = sum_list (spec_creditsOf (paidInFull now eps) S eps now (Stakers s) algoLeft)"
    unfolding s' by (simp add: algoCredited_creditAll)
  have upper: "algoCredited (Stakers s) (Stakers s') \<le> algoLeft"
    unfolding credited using I1 cons by (rule credits_le_reward)
  have first: "pay + algoCredited (Stakers s) (Stakers s') \<le> reward"
    using upper left by simp
  have second: "reward \<le> pay + algoCredited (Stakers s) (Stakers s') + n \<and> n \<le> NumStakers s"
    if pos: "1 \<le> PayoutEveryXMins (validatorConfig env)"
      and full: "\<exists>x\<in>set (Stakers s). fullEpoch now eps x \<and> 0 < Balance x"
  proof -
    from pos have eps_pos: "0 < eps" by (simp add: eps_def)
    from full obtain x where "x \<in> set (Stakers s)" "fullEpoch now eps x" "0 < Balance x"
      by blast
    then have "0 < sum_list (map Balance (filter (fullEpoch now eps) (Stakers s)))"
      by (rule full_stake_positive[of x "Stakers s" "fullEpoch now eps"])
    with I1 have some_full: "spec_partialTotal now eps (Stakers s) < S"
      using ledger_split[of "Stakers s" now eps] by simp
    have lower: "algoLeft \<le> algoCredited (Stakers s) (Stakers s') + n"
      unfolding credited n_def using I1 cons eps_pos some_full by (rule credits_ge_reward)
    have "n \<le> NumStakers s"
      unfolding n_def I2 by (rule full_count_le)
    with lower left show ?thesis by simp
  qed
  have third: "pay + algoCredited (Stakers s) (Stakers s')
                 + spec_residual S eps now (Stakers s) (reward - pay) = reward"
    if none: "S - spec_partialTotal now eps (Stakers s) = 0"
  proof -
    from left have al: "reward - pay = algoLeft" by simp
    have "sum_list (spec_creditsOf (paidInFull now eps) S eps now (Stakers s) algoLeft)
            = sum_list (spec_partialCredits S eps now (Stakers s) algoLeft)"
      unfolding spec_creditsOf_def none
      by (simp add: spec_fullCredit_no_stake map2_add_zero)
    with credited cons left show ?thesis unfolding al by simp
  qed
  have rS: "reward = appBalance env - S - appMinBalance env"
    by (simp add: reward_def S_def)
  from first second third show ?thesis
    unfolding paid now_def[symmetric] eps_def[symmetric] n_def[symmetric] S_def[symmetric]
      rS[symmetric]
    by blast
qed

text \<open>
  In the payout of 100 Algo to accounts 7 and 8 nothing is lost: 5 Algo of commission and
  95 Algo of credits.  In the payout of 100 Algo to a pool whose only staker entered half
  an epoch ago, the commission is 5 Algo, the staker is credited 47.5 Algo, and the 47.5
  Algo that the first pass left over are credited to no one.
\<close>

theorem reward_conservation_witness:
  "epochBalanceUpdate payout_env payout_pool =
     Inr (payout_pool_after,
          [LastPayoutWrite 100000, Payment 42 5000000 ''validator reward'',
           StakeUpdatedViaRewardsCall \<lparr>key_ID = 1, key_PoolID = 1, key_PoolAppID = 55\<rparr> 95000000 0])
   \<and> paidTo 42 [LastPayoutWrite 100000, Payment 42 5000000 ''validator reward'',
              StakeUpdatedViaRewardsCall \<lparr>key_ID = 1, key_PoolID = 1, key_PoolAppID = 55\<rparr>
                95000000 0]
     + algoCredited (Stakers payout_pool) (Stakers payout_pool_after) = 100000000
   \<and> appBalance payout_env - TotalAlgoStaked payout_pool - appMinBalance payout_env = 100000000
   \<and> paidTo 42 [LastPayoutWrite 100000, Payment 42 5000000 ''validator reward'',
              StakeUpdatedViaRewardsCall \<lparr>key_ID = 1, key_PoolID = 1, key_PoolAppID = 55\<rparr>
                47500000 0]
     + algoCredited (Stakers newcomer_pool) (Stakers newcomer_pool_after)
     + spec_residual 1000000000 60 100000 (Stakers newcomer_pool) 95000000 = 100000000
   \<and> algoCredited (Stakers newcomer_pool) (Stakers newcomer_pool_after) = 47500000"
proof -
  have notcap: "vs_TotalAlgoStaked (validatorState payout_env)
                   \<le> (getCurrentOnlineStake * MAX_VALIDATOR_PCT_OF_ONLINE payout_env) div 1000"
    by (simp add: payout_defs getCurrentOnlineStake_def)
  have inv: "ledgerConsistent payout_pool"
    by (simp add: payout_defs ledgerConsistent_def nonEmpty_def zeroAddress_def)
  have notcap': "vs_TotalAlgoStaked (validatorState newcomer_env)
                   \<le> (getCurrentOnlineStake * MAX_VALIDATOR_PCT_OF_ONLINE newcomer_env) div 1000"
    by (simp add: payout_defs getCurrentOnlineStake_def)
  have inv': "ledgerConsistent newcomer_pool"
    by (simp add: payout_defs ledgerConsistent_def nonEmpty_def zeroAddress_def)
  have none: "TotalAlgoStaked newcomer_pool
               - spec_partialTotal (latestTimestamp newcomer_env)
                   (PayoutEveryXMins (validatorConfig newcomer_env) * 60) (Stakers newcomer_pool)
               = 0"
    by (simp add: payout_defs spec_defs zeroAddress_def)
  from reward_conservation[OF payout_run notcap inv]
  have "paidTo (ValidatorCommissionAddress (validatorConfig payout_env))
          [LastPayoutWrite 100000, Payment 42 5000000 ''validator reward'',
           StakeUpdatedViaRewardsCall \<lparr>key_ID = 1, key_PoolID = 1, key_PoolAppID = 55\<rparr>
             95000000 0]
        + algoCredited (Stakers payout_pool) (Stakers payout_pool_after)
        \<le> appBalance payout_env - TotalAlgoStaked payout_pool - appMinBalance payout_env"
    by blast
  then have one: "paidTo 42 [LastPayoutWrite 100000, Payment 42 5000000 ''validator reward'',
              StakeUpdatedViaRewardsCall \<lparr>key_ID = 1, key_PoolID = 1, key_PoolAppID = 55\<rparr>
                95000000 0]
     + algoCredited (Stakers payout_pool) (Stakers payout_pool_after) = 100000000
   \<and> appBalance payout_env - TotalAlgoStaked payout_pool - appMinBalance payout_env = 100000000"
    by (simp add: payout_defs algoCredited_def)
  from reward_conservation[OF newcomer_run notcap' inv'] none
  have "paidTo (ValidatorCommissionAddress (validatorConfig newcomer_env))
          [LastPayoutWrite 100000, Payment 42 5000000 ''validator reward'',
           StakeUpdatedViaRewardsCall \<lparr>key_ID = 1, key_PoolID = 1, key_PoolAppID = 55\<rparr>
             47500000 0]
        + algoCredited (Stakers newcomer_pool) (Stakers newcomer_pool_after)
        + spec_residual (TotalAlgoStaked newcomer_pool)
            (PayoutEveryXMins (validatorConfig newcomer_env) * 60) (latestTimestamp newcomer_env)
            (Stakers newcomer_pool)
            (appBalance newcomer_env - TotalAlgoStaked newcomer_pool - appMinBalance newcomer_env
               - paidTo (ValidatorCommissionAddress (validatorConfig newcomer_env))
                   [LastPayoutWrite 100000, Payment 42 5000000 ''validator reward'',
                    StakeUpdatedViaRewardsCall
                      \<lparr>key_ID = 1, key_PoolID = 1, key_PoolAppID = 55\<rparr> 47500000 0])
        = appBalance newcomer_env - TotalAlgoStaked newcomer_pool - appMinBalance newcomer_env"
    by blast
  then have two: "paidTo 42 [LastPayoutWrite 100000, Payment 42 5000000 ''validator reward'',
              StakeUpdatedViaRewardsCall \<lparr>key_ID = 1, key_PoolID = 1, key_PoolAppID = 55\<rparr>
                47500000 0]
     + algoCredited (Stakers newcomer_pool) (Stakers newcomer_pool_after)
     + spec_residual 1000000000 60 100000 (Stakers newcomer_pool) 95000000 = 100000000"
    by (simp add: payout_defs)
  have "algoCredited (Stakers newcomer_pool) (Stakers newcomer_pool_after) = 47500000"
    by (simp add: payout_defs algoCredited_def)
  with one two payout_run show ?thesis by simp
qed

text \<open>
  Claim C3, as stated, fails when no staker was in the pool for the whole epoch.  The only
  staker of the first pool below entered half an epoch ago.  The call succeeds below the
  protocol cap, the pool's totals agree with its ledger, the commission is 5 Algo and the
  staker is credited 47.5 Algo: of the reward of 100 Algo, 47.5 Algo are neither credited
  nor paid, far more than \<open>NumStakers + 1 = 2\<close> microalgos.  It also fails when the epoch has
  length 0 and a staker was entered at the time of the call: in the second pool the
  commission is 5 Algo and nothing is credited, so 95 Algo are neither credited nor paid.
\<close>

theorem reward_not_conserved_for_newcomers:
  "epochBalanceUpdate newcomer_env newcomer_pool =
     Inr (newcomer_pool_after,
          [LastPayoutWrite 100000, Payment 42 5000000 ''validator reward'',
           StakeUpdatedViaRewardsCall \<lparr>key_ID = 1, key_PoolID = 1, key_PoolAppID = 55\<rparr>
             47500000 0])
   \<and> ledgerConsistent newcomer_pool
   \<and> vs_TotalAlgoStaked (validatorState newcomer_env)
        \<le> (getCurrentOnlineStake * MAX_VALIDATOR_PCT_OF_ONLINE newcomer_env) div 1000
   \<and> paidTo (ValidatorCommissionAddress (validatorConfig newcomer_env))
        [LastPayoutWrite 100000, Payment 42 5000000 ''validator reward'',
         StakeUpdatedViaRewardsCall \<lparr>key_ID = 1, key_PoolID = 1, key_PoolAppID = 55\<rparr>
           47500000 0]
      + algoCredited (Stakers newcomer_pool) (Stakers newcomer_pool_after)
      + (NumStakers newcomer_pool + 1)
      < appBalance newcomer_env - TotalAlgoStaked newcomer_pool - appMinBalance newcomer_env
   \<and> epochBalanceUpdate epoch0_env epoch0_pool =
     Inr (epoch0_pool,
          [LastPayoutWrite 100000, Payment 42 5000000 ''validator reward'',
           StakeUpdatedViaRewardsCall \<lparr>key_ID = 1, key_PoolID = 1, key_PoolAppID = 55\<rparr> 0 0])
   \<and> ledgerConsistent epoch0_pool
   \<and> vs_TotalAlgoStaked (validatorState epoch0_env)
        \<le> (getCurrentOnlineStake * MAX_VALIDATOR_PCT_OF_ONLINE epoch0_env) div 1000
   \<and> paidTo (ValidatorCommissionAddress (validatorConfig epoch0_env))
        [LastPayoutWrite 100000, Payment 42 5000000 ''validator reward'',
         StakeUpdatedViaRewardsCall \<lparr>key_ID = 1, key_PoolID = 1, key_PoolAppID = 55\<rparr> 0 0]
      + algoCredited (Stakers epoch0_pool) (Stakers epoch0_pool)
      + (NumStakers epoch0_pool + 1)
      < appBalance epoch0_env - TotalAlgoStaked epoch0_pool - appMinBalance epoch0_env"
  using newcomer_run epoch0_run
  by (simp add: payout_defs ledgerConsistent_def nonEmpty_def zeroAddress_def
        getCurrentOnlineStake_def algoCredited_def)

end
